theory Spec2Isabelle
  imports Complex_Main "HOL-Library.Sublist"
begin

section \<open>Runtime values\<close>

text \<open>
  The library validates arbitrary JavaScript values. A number is a double: besides the
  finite values (modelled by the rationals, which contain every finite double) there
  are NaN and the two infinities. Negative zero is not distinguished from zero. A string
  is a list of 8-bit characters, its code units: the model covers Latin-1 text, where
  the host's \<^verbatim>\<open>trim\<close>, \<^verbatim>\<open>toLowerCase\<close> and \<^verbatim>\<open>toUpperCase\<close> act as defined below;
  text with other characters is outside the model. A plain object is the
  list of its own enumerable properties in the order \<^verbatim>\<open>Object.keys\<close> lists them;
  no value of the model is a function, and accessor properties are outside the model.
\<close>

datatype jsnum = NaN | PosInf | NegInf | Fin rat

datatype jsval =
    VUndefined
  | VNull
  | VBool bool
  | VNum jsnum
  | VStr string
  | VBigInt int
  | VSymbol nat
  | VDate jsnum
  | VObject "(string \<times> jsval) list"
  | VArray "jsval list"
  | VMap "(jsval \<times> jsval) list"
  | VSet "jsval list"

fun typeof :: "jsval \<Rightarrow> string" where
  "typeof VUndefined = ''undefined''"
| "typeof VNull = ''object''"
| "typeof (VBool b) = ''boolean''"
| "typeof (VNum n) = ''number''"
| "typeof (VStr s) = ''string''"
| "typeof (VBigInt i) = ''bigint''"
| "typeof (VSymbol n) = ''symbol''"
| "typeof (VDate t) = ''object''"
| "typeof (VObject kvs) = ''object''"
| "typeof (VArray xs) = ''object''"
| "typeof (VMap kvs) = ''object''"
| "typeof (VSet xs) = ''object''"

text \<open>
  Two conversions of the host throw a \<^verbatim>\<open>TypeError\<close> on some values:
  \<^verbatim>\<open>JSON.stringify\<close> on a big integer, also one inside a plain object or an array,
  and the conversion to a string. That conversion throws on a symbol, and on a plain
  object with an own property \<^verbatim>\<open>toString\<close>: the property hides the inherited
  function, its value is not callable, and \<^verbatim>\<open>valueOf\<close> gives no primitive value
  either. \<^verbatim>\<open>String(v)\<close> applies the conversion to \<^verbatim>\<open>v\<close> and, when \<^verbatim>\<open>v\<close> is an
  array, to its elements, except that it renders a symbol it is given itself.
\<close>

primrec json_throws :: "jsval \<Rightarrow> bool" where
  "json_throws VUndefined = False"
| "json_throws VNull = False"
| "json_throws (VBool b) = False"
| "json_throws (VNum n) = False"
| "json_throws (VStr s) = False"
| "json_throws (VBigInt i) = True"
| "json_throws (VSymbol n) = False"
| "json_throws (VDate t) = False"
| "json_throws (VObject kvs) = list_ex snd (map (map_prod id json_throws) kvs)"
| "json_throws (VArray xs) = list_ex (\<lambda>b. b) (map json_throws xs)"
| "json_throws (VMap kvs) = False"
| "json_throws (VSet xs) = False"

primrec tostring_throws :: "jsval \<Rightarrow> bool" where
  "tostring_throws VUndefined = False"
| "tostring_throws VNull = False"
| "tostring_throws (VBool b) = False"
| "tostring_throws (VNum n) = False"
| "tostring_throws (VStr s) = False"
| "tostring_throws (VBigInt i) = False"
| "tostring_throws (VSymbol n) = True"
| "tostring_throws (VDate t) = False"
| "tostring_throws (VObject kvs) = (''toString'' \<in> set (map fst kvs))"
| "tostring_throws (VArray xs) = list_ex (\<lambda>b. b) (map tostring_throws xs)"
| "tostring_throws (VMap kvs) = False"
| "tostring_throws (VSet xs) = False"

definition String_throws :: "jsval \<Rightarrow> bool" where
  "String_throws v = (case v of VSymbol n \<Rightarrow> False | _ \<Rightarrow> tostring_throws v)"

text \<open>The comparison operators of the host on numbers: every comparison with NaN is false.\<close>

fun num_lt :: "jsnum \<Rightarrow> jsnum \<Rightarrow> bool" where
  "num_lt NaN b = False"
| "num_lt a NaN = False"
| "num_lt PosInf b = False"
| "num_lt NegInf b = (b \<noteq> NegInf)"
| "num_lt (Fin x) PosInf = True"
| "num_lt (Fin x) NegInf = False"
| "num_lt (Fin x) (Fin y) = (x < y)"

definition num_gt :: "jsnum \<Rightarrow> jsnum \<Rightarrow> bool" where
  "num_gt a b = num_lt b a"

definition num_eq :: "jsnum \<Rightarrow> jsnum \<Rightarrow> bool" where
  "num_eq a b = (a \<noteq> NaN \<and> a = b)"

definition num_le :: "jsnum \<Rightarrow> jsnum \<Rightarrow> bool" where
  "num_le a b = (num_lt a b \<or> num_eq a b)"

definition num_ge :: "jsnum \<Rightarrow> jsnum \<Rightarrow> bool" where
  "num_ge a b = num_le b a"

definition isNaN :: "jsnum \<Rightarrow> bool" where
  "isNaN a = (a = NaN)"

fun isFinite :: "jsnum \<Rightarrow> bool" where
  "isFinite (Fin x) = True"
| "isFinite a = False"

fun isInteger :: "jsnum \<Rightarrow> bool" where
  "isInteger (Fin x) = (of_int \<lfloor>x\<rfloor> = x)"
| "isInteger a = False"

text \<open>The remainder operator \<^verbatim>\<open>%\<close>: the result has the sign of the dividend.\<close>

fun num_rem :: "jsnum \<Rightarrow> jsnum \<Rightarrow> jsnum" where
  "num_rem (Fin x) (Fin y) =
     (if y = 0 then NaN
      else Fin (x - y * of_int (if 0 \<le> x / y then \<lfloor>x / y\<rfloor> else \<lceil>x / y\<rceil>)))"
| "num_rem (Fin x) PosInf = Fin x"
| "num_rem (Fin x) NegInf = Fin x"
| "num_rem a b = NaN"

definition num_of_nat :: "nat \<Rightarrow> jsnum" where
  "num_of_nat n = Fin (of_nat n)"

subsection \<open>Strings\<close>

text \<open>
  White space is what \<^verbatim>\<open>trim\<close> strips: the tab, the line feed, the vertical tab, the
  form feed, the carriage return, the space and the no-break space. The letters with a
  case mapping are the ASCII letters and the accented letters from \<^verbatim>\<open>U+00C0\<close> to
  \<^verbatim>\<open>U+00DE\<close> (upper case, the multiplication sign apart) and from \<^verbatim>\<open>U+00E0\<close> to
  \<^verbatim>\<open>U+00FE\<close> (lower case, the division sign apart), 32 apart. Upper-casing turns the
  sharp s into "SS". The micro sign and the y with diaeresis have their upper case
  outside Latin-1: they are left as they are, and text upper-cased from them is outside
  the model.
\<close>

definition is_space :: "char \<Rightarrow> bool" where
  "is_space c = ((of_char c :: nat) \<in> {9, 10, 11, 12, 13, 32, 160})"

definition lower_char :: "char \<Rightarrow> char" where
  "lower_char c =
     (let n = (of_char c :: nat)
      in if (65 \<le> n \<and> n \<le> 90) \<or> (192 \<le> n \<and> n \<le> 222 \<and> n \<noteq> 215) then char_of (n + 32)
         else c)"

definition upper_char :: "char \<Rightarrow> char" where
  "upper_char c =
     (let n = (of_char c :: nat)
      in if (97 \<le> n \<and> n \<le> 122) \<or> (224 \<le> n \<and> n \<le> 254 \<and> n \<noteq> 247) then char_of (n - 32)
         else c)"

definition upper_units :: "char \<Rightarrow> string" where
  "upper_units c = (if (of_char c :: nat) = 223 then ''SS'' else [upper_char c])"

definition trim :: "string \<Rightarrow> string" where
  "trim s = rev (dropWhile is_space (rev (dropWhile is_space s)))"

definition toLowerCase :: "string \<Rightarrow> string" where
  "toLowerCase s = map lower_char s"

definition toUpperCase :: "string \<Rightarrow> string" where
  "toUpperCase s = concat (map upper_units s)"

definition startsWith :: "string \<Rightarrow> string \<Rightarrow> bool" where
  "startsWith str p = prefix p str"

definition endsWith :: "string \<Rightarrow> string \<Rightarrow> bool" where
  "endsWith str p = suffix p str"

definition includesStr :: "string \<Rightarrow> string \<Rightarrow> bool" where
  "includesStr str p = sublist p str"

definition quoted :: "string \<Rightarrow> string" where
  "quoted s = CHR 0x22 # s @ [CHR 0x22]"

text \<open>
  A regular expression is an object of the host: its source text, its flags, its
  \<^verbatim>\<open>lastIndex\<close> and the host's matcher for it, which looks for a match in a string
  from a given index on and gives the index at which the match ends. An expression with
  the global or the sticky flag is stateful: \<^verbatim>\<open>test\<close> starts at \<^verbatim>\<open>lastIndex\<close>
  and leaves there the end of the match, or 0 when there is none. Any other expression
  is matched from the start of the string and keeps no state.
\<close>

datatype RegExp =
  RegExp (source: string) (flags: string) (lastIndex: nat) (matcher: "string \<Rightarrow> nat \<Rightarrow> nat option")

definition stateful :: "RegExp \<Rightarrow> bool" where
  "stateful r = (CHR ''g'' \<in> set (flags r) \<or> CHR ''y'' \<in> set (flags r))"

definition RegExp_exec :: "RegExp \<Rightarrow> string \<Rightarrow> nat option" where
  "RegExp_exec r str =
     (let start = (if stateful r then lastIndex r else 0)
      in if start \<le> length str then matcher r str start else None)"

definition test :: "RegExp \<Rightarrow> string \<Rightarrow> bool" where
  "test r str = (RegExp_exec r str \<noteq> None)"

text \<open>The expression as a call of \<^verbatim>\<open>test\<close> leaves it.\<close>

definition after_test :: "RegExp \<Rightarrow> string \<Rightarrow> RegExp" where
  "after_test r str =
     (if stateful r
      then RegExp (source r) (flags r) (case RegExp_exec r str of Some e \<Rightarrow> e | None \<Rightarrow> 0)
             (matcher r)
      else r)"

section \<open>Issues, errors and the parse context (types.ts)\<close>

text \<open>
  A message is a template: literal text and the values interpolated into it, whose
  rendering (\<^verbatim>\<open>String(v)\<close>, \<^verbatim>\<open>JSON.stringify(v)\<close>, \<^verbatim>\<open>toISOString\<close>) is the host's.
\<close>

datatype msgpart = Lit string | Shown jsval | Json jsval | Iso jsnum

type_synonym message = "msgpart list"

datatype segment = Key string | Index nat

record Issue =
  code :: string
  issue_path :: "segment list"
  message :: message
  expected :: "message option"
  received :: "message option"

record ParseContext =
  path :: "segment list"
  parent :: "jsval option"

text \<open>
  What a call can throw: a \<^verbatim>\<open>ValidationError\<close> with its issues, or any other
  exception (a fault of a callback or of the host), identified by a name. An error
  customizer that is a function is taken to return, not to throw. A validator is what
  the \<^verbatim>\<open>_parse\<close> of a node computes from the input and the context. The one state
  that a call can change is the \<^verbatim>\<open>lastIndex\<close> of a stateful regular expression held
  by a string node: the validator of such a node is what \<^verbatim>\<open>_parse\<close> computes from the
  state the expression is in.
\<close>

datatype thrown = ValidationError "Issue list" | OtherError string

type_synonym 'a result = "thrown + 'a"

type_synonym parser = "jsval \<Rightarrow> ParseContext \<Rightarrow> jsval result"

datatype ErrorCustomizer = Fixed string | Computed "Issue \<Rightarrow> string option"

definition mkIssue ::
  "string \<Rightarrow> segment list \<Rightarrow> message \<Rightarrow> message option \<Rightarrow> message option \<Rightarrow> Issue" where
  "mkIssue c p m e r = \<lparr>code = c, issue_path = p, message = m, expected = e, received = r\<rparr>"

text \<open>
  \<^verbatim>\<open>BaseSchema._fail\<close>: builds the single issue and throws it. An empty customizer
  string, or an empty or undefined customizer result, is falsy and keeps the default
  message.
\<close>

definition fail ::
  "ErrorCustomizer option \<Rightarrow> string \<Rightarrow> message \<Rightarrow> ParseContext \<Rightarrow>
   message option \<Rightarrow> message option \<Rightarrow> thrown" where
  "fail ec c msg ctx e r =
     (let finalMessage =
        (case ec of
           None \<Rightarrow> msg
         | Some (Fixed s) \<Rightarrow> if s = [] then msg else [Lit s]
         | Some (Computed f) \<Rightarrow>
             (case f (mkIssue c (path ctx) msg e r) of
                None \<Rightarrow> msg
              | Some custom \<Rightarrow> if custom = [] then msg else [Lit custom]))
      in ValidationError [mkIssue c (path ctx) finalMessage e r])"

definition root_ctx :: ParseContext where
  "root_ctx = \<lparr>path = [], parent = None\<rparr>"

definition descend :: "ParseContext \<Rightarrow> segment list \<Rightarrow> jsval \<Rightarrow> ParseContext" where
  "descend ctx segs par = \<lparr>path = path ctx @ segs, parent = Some par\<rparr>"

section \<open>The node contract (base.ts)\<close>


text \<open>\<^verbatim>\<open>BaseSchema.parse\<close>: runs the node at the root path; throws on failure.\<close>

definition parse_top :: "parser \<Rightarrow> jsval \<Rightarrow> jsval result" where
  "parse_top p d = p d root_ctx"


section \<open>Primitive validators\<close>

subsection \<open>StringSchema\<close>

record StringSchema =
  str_min :: "jsnum option"
  str_max :: "jsnum option"
  str_length :: "jsnum option"
  str_regex :: "RegExp option"
  str_includes :: "string option"
  str_startsWith :: "string option"
  str_endsWith :: "string option"
  str_trim :: bool
  str_toLowerCase :: bool
  str_toUpperCase :: bool

text \<open>The normalisations of \<^verbatim>\<open>StringSchema._parse\<close>, in the order the code applies them.\<close>

definition str_normalize :: "StringSchema \<Rightarrow> string \<Rightarrow> string" where
  "str_normalize c s =
     (let str = (if str_trim c then trim s else s);
          str = (if str_toLowerCase c then toLowerCase str else str);
          str = (if str_toUpperCase c then toUpperCase str else str)
      in str)"

definition violates :: "'a option \<Rightarrow> ('a \<Rightarrow> bool) \<Rightarrow> bool" where
  "violates opt bad = (case opt of None \<Rightarrow> False | Some x \<Rightarrow> bad x)"

definition StringSchema_parse :: "ErrorCustomizer option \<Rightarrow> StringSchema \<Rightarrow> parser" where
  "StringSchema_parse ec c d ctx =
     (case d of
        VStr s \<Rightarrow>
          (let str = str_normalize c s;
               len = num_of_nat (length str)
           in if violates (str_length c) (\<lambda>n. \<not> num_eq len n) then
                Inl (fail ec ''invalid_length''
                  [Lit ''String must be exactly '', Shown (VNum (the (str_length c))),
                   Lit '' characters''] ctx None None)
              else if violates (str_min c) (\<lambda>n. num_lt len n) then
                Inl (fail ec ''too_small''
                  [Lit ''String must be at least '', Shown (VNum (the (str_min c))),
                   Lit '' characters''] ctx None None)
              else if violates (str_max c) (\<lambda>n. num_gt len n) then
                Inl (fail ec ''too_big''
                  [Lit ''String must be at most '', Shown (VNum (the (str_max c))),
                   Lit '' characters''] ctx None None)
              else if violates (str_startsWith c) (\<lambda>p. \<not> startsWith str p) then
                Inl (fail ec ''invalid_string''
                  [Lit ''String must start with '', Lit (quoted (the (str_startsWith c)))]
                  ctx None None)
              else if violates (str_endsWith c) (\<lambda>p. \<not> endsWith str p) then
                Inl (fail ec ''invalid_string''
                  [Lit ''String must end with '', Lit (quoted (the (str_endsWith c)))]
                  ctx None None)
              else if violates (str_includes c) (\<lambda>p. \<not> includesStr str p) then
                Inl (fail ec ''invalid_string''
                  [Lit ''String must include '', Lit (quoted (the (str_includes c)))]
                  ctx None None)
              else if violates (str_regex c) (\<lambda>r. \<not> test r str) then
                Inl (fail ec ''invalid_string''
                  [Lit ''String must match pattern '',
                   Lit (''/'' @ source (the (str_regex c)) @ ''/'' @ flags (the (str_regex c)))]
                  ctx None None)
              else Inr (VStr str))
      | _ \<Rightarrow>
          Inl (fail ec ''invalid_type''
            [Lit ''Expected string, received '', Lit (typeof d)] ctx
            (Some [Lit ''string'']) (Some [Lit (typeof d)])))"

text \<open>
  \<^verbatim>\<open>StringSchema._parse\<close> returns or throws as above from the state its regular
  expression is in. A call that gets as far as the pattern check leaves the expression
  as \<^verbatim>\<open>test\<close> leaves it; this is the node after the call.
\<close>

definition StringSchema_after :: "StringSchema \<Rightarrow> jsval \<Rightarrow> StringSchema" where
  "StringSchema_after c d =
     (case d of
        VStr s \<Rightarrow>
          (let str = str_normalize c s;
               len = num_of_nat (length str)
           in if violates (str_length c) (\<lambda>n. \<not> num_eq len n) then c
              else if violates (str_min c) (\<lambda>n. num_lt len n) then c
              else if violates (str_max c) (\<lambda>n. num_gt len n) then c
              else if violates (str_startsWith c) (\<lambda>p. \<not> startsWith str p) then c
              else if violates (str_endsWith c) (\<lambda>p. \<not> endsWith str p) then c
              else if violates (str_includes c) (\<lambda>p. \<not> includesStr str p) then c
              else c\<lparr>str_regex := map_option (\<lambda>r. after_test r str) (str_regex c)\<rparr>)
      | _ \<Rightarrow> c)"

definition new_StringSchema :: StringSchema where
  "new_StringSchema =
     \<lparr>str_min = None, str_max = None, str_length = None, str_regex = None,
      str_includes = None, str_startsWith = None, str_endsWith = None,
      str_trim = False, str_toLowerCase = False, str_toUpperCase = False\<rparr>"

subsection \<open>NumberSchema\<close>

record NumberSchema =
  num_min :: "jsnum option"
  num_max :: "jsnum option"
  num_int :: bool
  num_positive :: bool
  num_negative :: bool
  num_nonnegative :: bool
  num_nonpositive :: bool
  num_finite :: bool
  num_multipleOf :: "jsnum option"

definition NumberSchema_parse :: "ErrorCustomizer option \<Rightarrow> NumberSchema \<Rightarrow> parser" where
  "NumberSchema_parse ec c d ctx =
     (case d of
        VNum x \<Rightarrow>
          if isNaN x then
            Inl (fail ec ''invalid_type'' [Lit ''Expected number, received NaN''] ctx None None)
          else if num_finite c \<and> \<not> isFinite x then
            Inl (fail ec ''not_finite'' [Lit ''Number must be finite''] ctx None None)
          else if num_int c \<and> \<not> isInteger x then
            Inl (fail ec ''invalid_type'' [Lit ''Expected integer''] ctx None None)
          else if num_positive c \<and> num_le x (Fin 0) then
            Inl (fail ec ''too_small'' [Lit ''Number must be positive''] ctx None None)
          else if num_negative c \<and> num_ge x (Fin 0) then
            Inl (fail ec ''too_big'' [Lit ''Number must be negative''] ctx None None)
          else if num_nonnegative c \<and> num_lt x (Fin 0) then
            Inl (fail ec ''too_small'' [Lit ''Number must be non-negative''] ctx None None)
          else if num_nonpositive c \<and> num_gt x (Fin 0) then
            Inl (fail ec ''too_big'' [Lit ''Number must be non-positive''] ctx None None)
          else if violates (num_min c) (\<lambda>m. num_lt x m) then
            Inl (fail ec ''too_small''
              [Lit ''Number must be >= '', Shown (VNum (the (num_min c)))] ctx None None)
          else if violates (num_max c) (\<lambda>m. num_gt x m) then
            Inl (fail ec ''too_big''
              [Lit ''Number must be <= '', Shown (VNum (the (num_max c)))] ctx None None)
          else if violates (num_multipleOf c) (\<lambda>m. \<not> num_eq (num_rem x m) (Fin 0)) then
            Inl (fail ec ''not_multiple_of''
              [Lit ''Number must be a multiple of '', Shown (VNum (the (num_multipleOf c)))]
              ctx None None)
          else Inr (VNum x)
      | _ \<Rightarrow>
          Inl (fail ec ''invalid_type''
            [Lit ''Expected number, received '', Lit (typeof d)] ctx
            (Some [Lit ''number'']) (Some [Lit (typeof d)])))"

definition new_NumberSchema :: NumberSchema where
  "new_NumberSchema =
     \<lparr>num_min = None, num_max = None, num_int = False, num_positive = False,
      num_negative = False, num_nonnegative = False, num_nonpositive = False,
      num_finite = False, num_multipleOf = None\<rparr>"

subsection \<open>The other scalar schemas\<close>

definition type_fail :: "ErrorCustomizer option \<Rightarrow> string \<Rightarrow> string \<Rightarrow> jsval \<Rightarrow> ParseContext \<Rightarrow> thrown" where
  "type_fail ec shown_name name d ctx =
     fail ec ''invalid_type'' [Lit ''Expected '', Lit shown_name, Lit '', received '', Lit (typeof d)]
       ctx (Some [Lit name]) (Some [Lit (typeof d)])"

definition BooleanSchema_parse :: "ErrorCustomizer option \<Rightarrow> parser" where
  "BooleanSchema_parse ec d ctx =
     (case d of VBool b \<Rightarrow> Inr d | _ \<Rightarrow> Inl (type_fail ec ''boolean'' ''boolean'' d ctx))"

record BigIntSchema =
  big_min :: "int option"
  big_max :: "int option"
  big_positive :: bool
  big_negative :: bool
  big_nonnegative :: bool
  big_nonpositive :: bool

definition BigIntSchema_parse :: "ErrorCustomizer option \<Rightarrow> BigIntSchema \<Rightarrow> parser" where
  "BigIntSchema_parse ec c d ctx =
     (case d of
        VBigInt x \<Rightarrow>
          if big_positive c \<and> x \<le> 0 then
            Inl (fail ec ''too_small'' [Lit ''BigInt must be positive''] ctx None None)
          else if big_negative c \<and> x \<ge> 0 then
            Inl (fail ec ''too_big'' [Lit ''BigInt must be negative''] ctx None None)
          else if big_nonnegative c \<and> x < 0 then
            Inl (fail ec ''too_small'' [Lit ''BigInt must be non-negative''] ctx None None)
          else if big_nonpositive c \<and> x > 0 then
            Inl (fail ec ''too_big'' [Lit ''BigInt must be non-positive''] ctx None None)
          else if violates (big_min c) (\<lambda>m. x < m) then
            Inl (fail ec ''too_small''
              [Lit ''BigInt must be >= '', Shown (VBigInt (the (big_min c)))] ctx None None)
          else if violates (big_max c) (\<lambda>m. x > m) then
            Inl (fail ec ''too_big''
              [Lit ''BigInt must be <= '', Shown (VBigInt (the (big_max c)))] ctx None None)
          else Inr (VBigInt x)
      | _ \<Rightarrow> Inl (type_fail ec ''bigint'' ''bigint'' d ctx))"

definition new_BigIntSchema :: BigIntSchema where
  "new_BigIntSchema =
     \<lparr>big_min = None, big_max = None, big_positive = False, big_negative = False,
      big_nonnegative = False, big_nonpositive = False\<rparr>"

text \<open>A date is its time value; an invalid date has the time value NaN.\<close>

record DateSchema =
  date_min :: "jsnum option"
  date_max :: "jsnum option"

definition DateSchema_parse :: "ErrorCustomizer option \<Rightarrow> DateSchema \<Rightarrow> parser" where
  "DateSchema_parse ec c d ctx =
     (case d of
        VDate t \<Rightarrow>
          if isNaN t then
            Inl (fail ec ''invalid_date'' [Lit ''Invalid date''] ctx None None)
          else if violates (date_min c) (\<lambda>m. num_lt t m) then
            Inl (fail ec ''too_small''
              [Lit ''Date must be >= '', Iso (the (date_min c))] ctx None None)
          else if violates (date_max c) (\<lambda>m. num_gt t m) then
            Inl (fail ec ''too_big''
              [Lit ''Date must be <= '', Iso (the (date_max c))] ctx None None)
          else Inr (VDate t)
      | _ \<Rightarrow> Inl (type_fail ec ''Date'' ''Date'' d ctx))"

definition new_DateSchema :: DateSchema where
  "new_DateSchema = \<lparr>date_min = None, date_max = None\<rparr>"

definition SymbolSchema_parse :: "ErrorCustomizer option \<Rightarrow> parser" where
  "SymbolSchema_parse ec d ctx =
     (case d of VSymbol n \<Rightarrow> Inr d | _ \<Rightarrow> Inl (type_fail ec ''symbol'' ''symbol'' d ctx))"

definition UndefinedSchema_parse :: "ErrorCustomizer option \<Rightarrow> parser" where
  "UndefinedSchema_parse ec d ctx =
     (if d \<noteq> VUndefined then Inl (type_fail ec ''undefined'' ''undefined'' d ctx) else Inr d)"

definition NullSchema_parse :: "ErrorCustomizer option \<Rightarrow> parser" where
  "NullSchema_parse ec d ctx =
     (if d \<noteq> VNull then Inl (type_fail ec ''null'' ''null'' d ctx) else Inr d)"

definition VoidSchema_parse :: "ErrorCustomizer option \<Rightarrow> parser" where
  "VoidSchema_parse ec d ctx =
     (if d \<noteq> VUndefined then Inl (type_fail ec ''void (undefined)'' ''void'' d ctx) else Inr d)"

definition AnySchema_parse :: parser where
  "AnySchema_parse d ctx = Inr d"

definition UnknownSchema_parse :: parser where
  "UnknownSchema_parse d ctx = Inr d"

definition NeverSchema_parse :: "ErrorCustomizer option \<Rightarrow> parser" where
  "NeverSchema_parse ec d ctx =
     Inl (fail ec ''invalid_type'' [Lit ''Never type cannot have any value''] ctx None None)"

definition NaNSchema_parse :: "ErrorCustomizer option \<Rightarrow> parser" where
  "NaNSchema_parse ec d ctx =
     (if d \<noteq> VNum NaN then
        (if String_throws d then Inl (OtherError ''TypeError'')
         else Inl (fail ec ''invalid_type'' [Lit ''Expected NaN''] ctx (Some [Lit ''NaN''])
                     (Some [Shown d])))
      else Inr d)"

section \<open>The modifier chain (base.ts)\<close>

text \<open>
  A wrapper owns one child and calls its \<^verbatim>\<open>_parse\<close>; the child is whatever node it
  was given, so the wrappers take the child's parser. A default or catch value is a
  plain value or a function that is called for it; a callback can throw.
\<close>

datatype fallback = Plain jsval | Thunk "jsval result"

definition produce :: "fallback \<Rightarrow> jsval result" where
  "produce f = (case f of Plain v \<Rightarrow> Inr v | Thunk r \<Rightarrow> r)"

definition OptionalSchema_parse :: "parser \<Rightarrow> parser" where
  "OptionalSchema_parse inner d ctx = (if d = VUndefined then Inr VUndefined else inner d ctx)"

definition NullableSchema_parse :: "parser \<Rightarrow> parser" where
  "NullableSchema_parse inner d ctx = (if d = VNull then Inr VNull else inner d ctx)"

definition NullishSchema_parse :: "parser \<Rightarrow> parser" where
  "NullishSchema_parse inner d ctx =
     (if d = VNull \<or> d = VUndefined then Inr d else inner d ctx)"

definition DefaultSchema_parse :: "parser \<Rightarrow> fallback \<Rightarrow> parser" where
  "DefaultSchema_parse inner def d ctx =
     (if d = VUndefined then produce def else inner d ctx)"

definition CatchSchema_parse :: "parser \<Rightarrow> fallback \<Rightarrow> parser" where
  "CatchSchema_parse inner c d ctx =
     (case inner d ctx of Inr v \<Rightarrow> Inr v | Inl e \<Rightarrow> produce c)"

definition TransformSchema_parse :: "parser \<Rightarrow> (jsval \<Rightarrow> jsval result) \<Rightarrow> parser" where
  "TransformSchema_parse inner transform d ctx =
     (case inner d ctx of Inl e \<Rightarrow> Inl e | Inr parsed \<Rightarrow> transform parsed)"

definition RefineSchema_parse ::
  "ErrorCustomizer option \<Rightarrow> parser \<Rightarrow> (jsval \<Rightarrow> bool result) \<Rightarrow> string \<Rightarrow> parser" where
  "RefineSchema_parse ec inner refine msg d ctx =
     (case inner d ctx of
        Inl e \<Rightarrow> Inl e
      | Inr parsed \<Rightarrow>
          (case refine parsed of
             Inl e \<Rightarrow> Inl e
           | Inr ok \<Rightarrow>
               if \<not> ok then Inl (fail ec ''custom'' [Lit msg] ctx None None) else Inr parsed))"

definition PipeSchema_parse :: "parser \<Rightarrow> parser \<Rightarrow> parser" where
  "PipeSchema_parse first second d ctx =
     (case first d ctx of Inl e \<Rightarrow> Inl e | Inr v \<Rightarrow> second v ctx)"

section \<open>Composite validators (object.ts, array.ts)\<close>

subsection \<open>Properties of objects\<close>

function show_nat :: "nat \<Rightarrow> string" where
  "show_nat n =
     (if n < 10 then [char_of (48 + n)] else show_nat (n div 10) @ [char_of (48 + n mod 10)])"
  by pat_completeness auto
termination
  by (relation "measure (\<lambda>n. n)") auto

text \<open>
  The own enumerable properties of a value, as \<^verbatim>\<open>Object.keys\<close> and the spread
  operator see them: those of a plain object, and the indices of an array.
\<close>

fun own_entries :: "jsval \<Rightarrow> (string \<times> jsval) list" where
  "own_entries (VObject kvs) = kvs"
| "own_entries (VArray xs) = zip (map show_nat [0..<length xs]) xs"
| "own_entries v = []"

definition object_keys :: "jsval \<Rightarrow> string list" where
  "object_keys v = map fst (own_entries v)"

text \<open>Reading \<^verbatim>\<open>input[key]\<close>: a missing property reads as undefined.\<close>

definition get_prop :: "jsval \<Rightarrow> string \<Rightarrow> jsval" where
  "get_prop v k =
     (case v of
        VArray xs \<Rightarrow>
          if k = ''length'' then VNum (num_of_nat (length xs))
          else (case map_of (own_entries v) k of None \<Rightarrow> VUndefined | Some x \<Rightarrow> x)
      | _ \<Rightarrow> (case map_of (own_entries v) k of None \<Rightarrow> VUndefined | Some x \<Rightarrow> x))"

text \<open>
  Writing \<^verbatim>\<open>output[key] = v\<close>: an existing property keeps its place and a new one
  comes last (the host lists integer-like keys first; the model keeps insertion order).
\<close>

fun assign :: "('k \<times> 'v) list \<Rightarrow> 'k \<Rightarrow> 'v \<Rightarrow> ('k \<times> 'v) list" where
  "assign [] k v = [(k, v)]"
| "assign ((k', v') # kvs) k v = (if k' = k then (k, v) # kvs else (k', v') # assign kvs k v)"

definition is_object :: "jsval \<Rightarrow> bool" where
  "is_object d = (typeof d = ''object'' \<and> d \<noteq> VNull)"

fun isArray :: "jsval \<Rightarrow> bool" where
  "isArray (VArray xs) = True"
| "isArray v = False"

definition received_kind :: "jsval \<Rightarrow> string" where
  "received_kind d = (if d = VNull then ''null'' else if isArray d then ''array'' else typeof d)"

subsection \<open>ObjectSchema\<close>

datatype UnknownKeysMode = Strip | Strict | Passthrough

type_synonym collected = "(string \<times> jsval) list \<times> Issue list"

text \<open>The loop over the declared keys: a child's issues are collected, a fault is rethrown.\<close>

fun parse_shape ::
  "(string \<times> parser) list \<Rightarrow> jsval \<Rightarrow> ParseContext \<Rightarrow> collected \<Rightarrow> collected result" where
  "parse_shape [] input ctx acc = Inr acc"
| "parse_shape ((key, schema) # rest) input ctx (out, issues) =
     (case schema (get_prop input key) (descend ctx [Key key] input) of
        Inr v \<Rightarrow> parse_shape rest input ctx (assign out key v, issues)
      | Inl (ValidationError es) \<Rightarrow> parse_shape rest input ctx (out, issues @ es)
      | Inl (OtherError e) \<Rightarrow> Inl (OtherError e))"

text \<open>The loop over the input's keys that the shape does not declare.\<close>

fun parse_unknown ::
  "string list \<Rightarrow> string list \<Rightarrow> UnknownKeysMode \<Rightarrow> parser option \<Rightarrow> jsval \<Rightarrow> ParseContext \<Rightarrow>
   collected \<Rightarrow> collected result" where
  "parse_unknown [] declared mode catchall input ctx acc = Inr acc"
| "parse_unknown (key # rest) declared mode catchall input ctx (out, issues) =
     (if key \<notin> set declared then
        (case catchall of
           Some c \<Rightarrow>
             (case c (get_prop input key) (descend ctx [Key key] input) of
                Inr v \<Rightarrow>
                  parse_unknown rest declared mode catchall input ctx (assign out key v, issues)
              | Inl (ValidationError es) \<Rightarrow>
                  parse_unknown rest declared mode catchall input ctx (out, issues @ es)
              | Inl (OtherError e) \<Rightarrow> Inl (OtherError e))
         | None \<Rightarrow>
             if mode = Strict then
               parse_unknown rest declared mode catchall input ctx
                 (out, issues @ [mkIssue ''unrecognized_keys'' (path ctx)
                    [Lit ''Unrecognized key: '', Lit (quoted key)] None None])
             else if mode = Passthrough then
               parse_unknown rest declared mode catchall input ctx
                 (assign out key (get_prop input key), issues)
             else parse_unknown rest declared mode catchall input ctx (out, issues))
      else parse_unknown rest declared mode catchall input ctx (out, issues))"

definition object_type_fail :: "ErrorCustomizer option \<Rightarrow> jsval \<Rightarrow> ParseContext \<Rightarrow> thrown" where
  "object_type_fail ec d ctx =
     fail ec ''invalid_type'' [Lit ''Expected object, received '', Lit (received_kind d)] ctx
       (Some [Lit ''object'']) (Some [Lit (received_kind d)])"

definition finish :: "('o \<times> Issue list \<Rightarrow> jsval) \<Rightarrow> ('o \<times> Issue list) result \<Rightarrow> jsval result" where
  "finish build r =
     (case r of
        Inl e \<Rightarrow> Inl e
      | Inr (out, issues) \<Rightarrow>
          if length issues > 0 then Inl (ValidationError issues) else Inr (build (out, issues)))"

definition ObjectSchema_parse ::
  "ErrorCustomizer option \<Rightarrow> (string \<times> parser) list \<Rightarrow> UnknownKeysMode \<Rightarrow> parser option \<Rightarrow> parser"
  where
  "ObjectSchema_parse ec shape unknownKeys catchall d ctx =
     (if typeof d \<noteq> ''object'' \<or> d = VNull \<or> isArray d then Inl (object_type_fail ec d ctx)
      else
        (case parse_shape shape d ctx ([], []) of
           Inl e \<Rightarrow> Inl e
         | Inr acc \<Rightarrow>
             finish (\<lambda>(out, issues). VObject out)
               (if unknownKeys \<noteq> Strip \<or> catchall \<noteq> None then
                  parse_unknown (object_keys d) (map fst shape) unknownKeys catchall d ctx acc
                else Inr acc)))"

subsection \<open>RecordSchema\<close>

text \<open>
  Per entry the key is validated first; when it fails, its issues are collected and the
  loop goes on to the next entry (\<^verbatim>\<open>continue\<close>), so the value is not validated.
\<close>

fun parse_record ::
  "parser \<Rightarrow> parser \<Rightarrow> string list \<Rightarrow> jsval \<Rightarrow> ParseContext \<Rightarrow> collected \<Rightarrow> collected result"
  where
  "parse_record keySchema valueSchema [] input ctx acc = Inr acc"
| "parse_record keySchema valueSchema (key # rest) input ctx (out, issues) =
     (case keySchema (VStr key) (descend ctx [Key key] input) of
        Inl (ValidationError es) \<Rightarrow>
          parse_record keySchema valueSchema rest input ctx (out, issues @ es)
      | Inl (OtherError e) \<Rightarrow> Inl (OtherError e)
      | Inr k \<Rightarrow>
          (case valueSchema (get_prop input key) (descend ctx [Key key] input) of
             Inr v \<Rightarrow> parse_record keySchema valueSchema rest input ctx (assign out key v, issues)
           | Inl (ValidationError es) \<Rightarrow>
               parse_record keySchema valueSchema rest input ctx (out, issues @ es)
           | Inl (OtherError e) \<Rightarrow> Inl (OtherError e)))"

definition RecordSchema_parse :: "ErrorCustomizer option \<Rightarrow> parser \<Rightarrow> parser \<Rightarrow> parser" where
  "RecordSchema_parse ec keySchema valueSchema d ctx =
     (if typeof d \<noteq> ''object'' \<or> d = VNull \<or> isArray d then Inl (object_type_fail ec d ctx)
      else
        finish (\<lambda>(out, issues). VObject out)
          (parse_record keySchema valueSchema (object_keys d) d ctx ([], [])))"

subsection \<open>MapSchema\<close>

text \<open>
  \<^verbatim>\<open>Map.set\<close> and \<^verbatim>\<open>Set.add\<close> compare primitive keys by value; a key that is an
  object is compared by identity, and the model takes two such keys as different.
\<close>

definition is_primitive :: "jsval \<Rightarrow> bool" where
  "is_primitive v = (typeof v \<noteq> ''object'' \<or> v = VNull)"

definition map_set :: "(jsval \<times> jsval) list \<Rightarrow> jsval \<Rightarrow> jsval \<Rightarrow> (jsval \<times> jsval) list" where
  "map_set m k v = (if is_primitive k then assign m k v else m @ [(k, v)])"

definition set_add :: "jsval list \<Rightarrow> jsval \<Rightarrow> jsval list" where
  "set_add xs v = (if is_primitive v \<and> v \<in> set xs then xs else xs @ [v])"

text \<open>
  One \<^verbatim>\<open>try\<close> block holds the key and the value of an entry: a key that fails skips
  the value.
\<close>

fun parse_map ::
  "parser \<Rightarrow> parser \<Rightarrow> (jsval \<times> jsval) list \<Rightarrow> jsval \<Rightarrow> ParseContext \<Rightarrow> nat \<Rightarrow>
   (jsval \<times> jsval) list \<times> Issue list \<Rightarrow> ((jsval \<times> jsval) list \<times> Issue list) result" where
  "parse_map keySchema valueSchema [] input ctx index acc = Inr acc"
| "parse_map keySchema valueSchema ((key, val) # rest) input ctx index (out, issues) =
     (case keySchema key (descend ctx [Index index, Key ''key''] input) of
        Inl (ValidationError es) \<Rightarrow>
          parse_map keySchema valueSchema rest input ctx (index + 1) (out, issues @ es)
      | Inl (OtherError e) \<Rightarrow> Inl (OtherError e)
      | Inr parsedKey \<Rightarrow>
          (case valueSchema val (descend ctx [Index index, Key ''value''] input) of
             Inl (ValidationError es) \<Rightarrow>
               parse_map keySchema valueSchema rest input ctx (index + 1) (out, issues @ es)
           | Inl (OtherError e) \<Rightarrow> Inl (OtherError e)
           | Inr parsedValue \<Rightarrow>
               parse_map keySchema valueSchema rest input ctx (index + 1)
                 (map_set out parsedKey parsedValue, issues)))"

definition MapSchema_parse :: "ErrorCustomizer option \<Rightarrow> parser \<Rightarrow> parser \<Rightarrow> parser" where
  "MapSchema_parse ec keySchema valueSchema d ctx =
     (case d of
        VMap entries \<Rightarrow>
          (case parse_map keySchema valueSchema entries d ctx 0 ([], []) of
             Inl e \<Rightarrow> Inl e
           | Inr (out, issues) \<Rightarrow>
               if length issues > 0 then Inl (ValidationError issues) else Inr (VMap out))
      | _ \<Rightarrow> Inl (type_fail ec ''Map'' ''Map'' d ctx))"

subsection \<open>SetSchema\<close>

record SetSchema =
  set_min :: "jsnum option"
  set_max :: "jsnum option"
  set_size :: "jsnum option"

fun parse_members ::
  "parser \<Rightarrow> jsval list \<Rightarrow> jsval \<Rightarrow> ParseContext \<Rightarrow> nat \<Rightarrow> jsval list \<times> Issue list \<Rightarrow>
   (jsval list \<times> Issue list) result" where
  "parse_members valueSchema [] input ctx index acc = Inr acc"
| "parse_members valueSchema (val # rest) input ctx index (out, issues) =
     (case valueSchema val (descend ctx [Index index] input) of
        Inr v \<Rightarrow> parse_members valueSchema rest input ctx (index + 1) (set_add out v, issues)
      | Inl (ValidationError es) \<Rightarrow>
          parse_members valueSchema rest input ctx (index + 1) (out, issues @ es)
      | Inl (OtherError e) \<Rightarrow> Inl (OtherError e))"

definition SetSchema_parse :: "ErrorCustomizer option \<Rightarrow> parser \<Rightarrow> SetSchema \<Rightarrow> parser" where
  "SetSchema_parse ec valueSchema c d ctx =
     (case d of
        VSet members \<Rightarrow>
          (let size = num_of_nat (length members)
           in if violates (set_size c) (\<lambda>n. \<not> num_eq size n) then
                Inl (fail ec ''invalid_size''
                  [Lit ''Set must have exactly '', Shown (VNum (the (set_size c))),
                   Lit '' elements''] ctx None None)
              else if violates (set_min c) (\<lambda>n. num_lt size n) then
                Inl (fail ec ''too_small''
                  [Lit ''Set must have at least '', Shown (VNum (the (set_min c))),
                   Lit '' elements''] ctx None None)
              else if violates (set_max c) (\<lambda>n. num_gt size n) then
                Inl (fail ec ''too_big''
                  [Lit ''Set must have at most '', Shown (VNum (the (set_max c))),
                   Lit '' elements''] ctx None None)
              else
                (case parse_members valueSchema members d ctx 0 ([], []) of
                   Inl e \<Rightarrow> Inl e
                 | Inr (out, issues) \<Rightarrow>
                     if length issues > 0 then Inl (ValidationError issues)
                     else Inr (VSet out)))
      | _ \<Rightarrow> Inl (type_fail ec ''Set'' ''Set'' d ctx))"

definition new_SetSchema :: SetSchema where
  "new_SetSchema = \<lparr>set_min = None, set_max = None, set_size = None\<rparr>"

subsection \<open>ArraySchema and TupleSchema\<close>

record ArraySchema =
  arr_min :: "jsnum option"
  arr_max :: "jsnum option"
  arr_length :: "jsnum option"

text \<open>
  The loop over positions \<^verbatim>\<open>i\<close>: position \<^verbatim>\<open>i\<close> of the input goes to the schema the
  function \<^verbatim>\<open>pick\<close> gives for it. A position that fails leaves the output unset.
\<close>

fun parse_positions ::
  "(nat \<Rightarrow> parser) \<Rightarrow> jsval list \<Rightarrow> jsval \<Rightarrow> ParseContext \<Rightarrow> nat \<Rightarrow> jsval list \<times> Issue list \<Rightarrow>
   (jsval list \<times> Issue list) result" where
  "parse_positions pick [] input ctx i acc = Inr acc"
| "parse_positions pick (x # rest) input ctx i (out, issues) =
     (case pick i x (descend ctx [Index i] input) of
        Inr v \<Rightarrow> parse_positions pick rest input ctx (i + 1) (out @ [v], issues)
      | Inl (ValidationError es) \<Rightarrow>
          parse_positions pick rest input ctx (i + 1) (out @ [VUndefined], issues @ es)
      | Inl (OtherError e) \<Rightarrow> Inl (OtherError e))"

definition ArraySchema_parse :: "ErrorCustomizer option \<Rightarrow> parser \<Rightarrow> ArraySchema \<Rightarrow> parser" where
  "ArraySchema_parse ec element c d ctx =
     (case d of
        VArray xs \<Rightarrow>
          (let len = num_of_nat (length xs)
           in if violates (arr_length c) (\<lambda>n. \<not> num_eq len n) then
                Inl (fail ec ''invalid_length''
                  [Lit ''Array must have exactly '', Shown (VNum (the (arr_length c))),
                   Lit '' elements''] ctx None None)
              else if violates (arr_min c) (\<lambda>n. num_lt len n) then
                Inl (fail ec ''too_small''
                  [Lit ''Array must have at least '', Shown (VNum (the (arr_min c))),
                   Lit '' elements''] ctx None None)
              else if violates (arr_max c) (\<lambda>n. num_gt len n) then
                Inl (fail ec ''too_big''
                  [Lit ''Array must have at most '', Shown (VNum (the (arr_max c))),
                   Lit '' elements''] ctx None None)
              else
                (case parse_positions (\<lambda>i. element) xs d ctx 0 ([], []) of
                   Inl e \<Rightarrow> Inl e
                 | Inr (out, issues) \<Rightarrow>
                     if length issues > 0 then Inl (ValidationError issues)
                     else Inr (VArray out)))
      | _ \<Rightarrow> Inl (type_fail ec ''array'' ''array'' d ctx))"

definition new_ArraySchema :: ArraySchema where
  "new_ArraySchema = \<lparr>arr_min = None, arr_max = None, arr_length = None\<rparr>"

text \<open>
  The tuple first parses the fixed items and then, with a rest schema, the positions
  after them; without one the length check has made the input as long as the items.
\<close>

definition TupleSchema_parse :: "ErrorCustomizer option \<Rightarrow> parser list \<Rightarrow> parser option \<Rightarrow> parser" where
  "TupleSchema_parse ec items rest d ctx =
     (case d of
        VArray xs \<Rightarrow>
          (let itemCount = length items
           in if rest = None \<and> length xs \<noteq> itemCount then
                Inl (fail ec ''invalid_length''
                  [Lit ''Expected array of length '', Shown (VNum (num_of_nat itemCount)),
                   Lit '', received '', Shown (VNum (num_of_nat (length xs)))] ctx None None)
              else if rest \<noteq> None \<and> length xs < itemCount then
                Inl (fail ec ''too_small''
                  [Lit ''Expected at least '', Shown (VNum (num_of_nat itemCount)),
                   Lit '' elements, received '', Shown (VNum (num_of_nat (length xs)))]
                  ctx None None)
              else
                (case parse_positions (\<lambda>i. items ! i) (take itemCount xs) d ctx 0 ([], []) of
                   Inl e \<Rightarrow> Inl e
                 | Inr acc \<Rightarrow>
                     finish (\<lambda>(out, issues). VArray out)
                       (case rest of
                          None \<Rightarrow> Inr acc
                        | Some r \<Rightarrow>
                            parse_positions (\<lambda>i. r) (drop itemCount xs) d ctx itemCount acc)))
      | _ \<Rightarrow> Inl (type_fail ec ''array'' ''array'' d ctx))"

section \<open>Literals, enums, unions (enum.ts)\<close>

text \<open>
  A \<^verbatim>\<open>Set\<close> built from an array keeps the first occurrence of each value. The
  messages of the literal, enum and discriminated-union schemas render values with
  \<^verbatim>\<open>JSON.stringify\<close>, which throws where \<^term>\<open>json_throws\<close> says.
\<close>

definition new_Set :: "'a list \<Rightarrow> 'a list" where
  "new_Set xs = rev (remdups (rev xs))"

fun join :: "message \<Rightarrow> message list \<Rightarrow> message" where
  "join sep [] = []"
| "join sep [m] = m"
| "join sep (m # ms) = m @ sep @ join sep ms"

definition LiteralSchema_parse :: "ErrorCustomizer option \<Rightarrow> jsval list \<Rightarrow> parser" where
  "LiteralSchema_parse ec vals d ctx =
     (if \<not> (is_primitive d \<and> d \<in> set vals) then
        (if list_ex json_throws vals \<or> json_throws d then Inl (OtherError ''TypeError'')
         else
           (let expected = join [Lit '' | ''] (map (\<lambda>v. [Json v]) vals)
            in Inl (fail ec ''invalid_literal''
                      ([Lit ''Expected ''] @ expected @ [Lit '', received '', Json d]) ctx
                      (Some expected) (Some [Json d]))))
      else Inr d)"

definition EnumSchema_parse :: "ErrorCustomizer option \<Rightarrow> string list \<Rightarrow> parser" where
  "EnumSchema_parse ec vals d ctx =
     (if \<not> (\<exists>s \<in> set vals. d = VStr s) then
        (if json_throws d then Inl (OtherError ''TypeError'')
         else
           (let expected = join [Lit '' | ''] (map (\<lambda>v. [Lit (quoted v)]) vals)
            in Inl (fail ec ''invalid_enum_value''
                      ([Lit ''Expected ''] @ expected @ [Lit '', received '', Json d]) ctx
                      (Some expected) (Some [Json d]))))
      else Inr d)"

subsection \<open>UnionSchema\<close>

text \<open>
  The options are tried in order. The first that returns ends the loop; the issues of one
  that fails validation are set aside, and any other exception is rethrown at once.
\<close>

fun try_options :: "parser list \<Rightarrow> jsval \<Rightarrow> ParseContext \<Rightarrow> Issue list \<Rightarrow> (Issue list + jsval result)"
  where
  "try_options [] d ctx issues = Inl issues"
| "try_options (option # rest) d ctx issues =
     (case option d ctx of
        Inr v \<Rightarrow> Inr (Inr v)
      | Inl (ValidationError es) \<Rightarrow> try_options rest d ctx (issues @ es)
      | Inl (OtherError e) \<Rightarrow> Inr (Inl (OtherError e)))"

definition UnionSchema_parse :: "ErrorCustomizer option \<Rightarrow> parser list \<Rightarrow> parser" where
  "UnionSchema_parse ec opts d ctx =
     (case try_options opts d ctx [] of
        Inr r \<Rightarrow> r
      | Inl issues \<Rightarrow>
          Inl (fail ec ''invalid_union''
                 [Lit ''Invalid input: does not match any union member''] ctx None None))"

subsection \<open>DiscriminatedUnionSchema\<close>

text \<open>The fallback loop: whatever an option throws is swallowed and the next is tried.\<close>

fun probe_options :: "parser list \<Rightarrow> jsval \<Rightarrow> ParseContext \<Rightarrow> jsval option" where
  "probe_options [] d ctx = None"
| "probe_options (option # rest) d ctx =
     (case option d ctx of Inr v \<Rightarrow> Some v | Inl e \<Rightarrow> probe_options rest d ctx)"

definition DiscriminatedUnionSchema_parse ::
  "ErrorCustomizer option \<Rightarrow> string \<Rightarrow> parser list \<Rightarrow> (jsval \<times> parser) list \<Rightarrow> parser" where
  "DiscriminatedUnionSchema_parse ec discriminator opts table d ctx =
     (if typeof d \<noteq> ''object'' \<or> d = VNull then
        Inl (fail ec ''invalid_type''
               [Lit ''Expected object, received '',
                Lit (if d = VNull then ''null'' else typeof d)] ctx None None)
      else
        (let discriminatorValue = get_prop d discriminator
         in case map_of table discriminatorValue of
              Some matchedSchema \<Rightarrow> matchedSchema d ctx
            | None \<Rightarrow>
                (case probe_options opts d ctx of
                   Some v \<Rightarrow> Inr v
                 | None \<Rightarrow>
                     if json_throws discriminatorValue then Inl (OtherError ''TypeError'')
                     else
                       Inl (fail ec ''invalid_union_discriminator''
                              [Lit ''Invalid discriminator value: '', Json discriminatorValue]
                              ctx None None))))"

subsection \<open>IntersectionSchema\<close>

definition spread :: "jsval \<Rightarrow> jsval \<Rightarrow> jsval" where
  "spread l r = VObject (fold (\<lambda>(k, v) acc. assign acc k v) (own_entries l @ own_entries r) [])"

definition IntersectionSchema_parse :: "parser \<Rightarrow> parser \<Rightarrow> parser" where
  "IntersectionSchema_parse left right d ctx =
     (case left d ctx of
        Inl e \<Rightarrow> Inl e
      | Inr leftResult \<Rightarrow>
          (case right d ctx of
             Inl e \<Rightarrow> Inl e
           | Inr rightResult \<Rightarrow>
               if is_object leftResult \<and> is_object rightResult
               then Inr (spread leftResult rightResult)
               else Inr d))"

section \<open>The string-to-boolean validator (coerce.ts)\<close>

record StringBoolSchema =
  sb_truthy :: "string list"
  sb_falsy :: "string list"

text \<open>The constructor: a token list that the options do not give takes its default.\<close>

definition new_StringBoolSchema :: "string list option \<Rightarrow> string list option \<Rightarrow> StringBoolSchema"
  where
  "new_StringBoolSchema truthy falsy =
     \<lparr>sb_truthy = new_Set (case truthy of
                              None \<Rightarrow> [''true'', ''1'', ''yes'', ''on'', ''y'', ''enabled'']
                            | Some ts \<Rightarrow> ts),
      sb_falsy = new_Set (case falsy of
                             None \<Rightarrow> [''false'', ''0'', ''no'', ''off'', ''n'', ''disabled'']
                           | Some fs \<Rightarrow> fs)\<rparr>"

definition StringBoolSchema_parse :: "ErrorCustomizer option \<Rightarrow> StringBoolSchema \<Rightarrow> parser" where
  "StringBoolSchema_parse ec c d ctx =
     (case d of
        VStr s \<Rightarrow>
          (let lower = toLowerCase s
           in if lower \<in> set (sb_truthy c) then Inr (VBool True)
              else if lower \<in> set (sb_falsy c) then Inr (VBool False)
              else Inl (fail ec ''invalid_value''
                          [Lit ''Cannot parse '', Lit (quoted s), Lit '' as boolean'']
                          ctx None None))
      | _ \<Rightarrow>
          Inl (fail ec ''invalid_type''
                 [Lit ''Expected string, received '', Lit (typeof d)] ctx None None))"

section \<open>Schema nodes\<close>

text \<open>
  A node is an object of one of the schema classes: its error customizer, its own
  \<^verbatim>\<open>_parse\<close> property when one has been assigned to the instance (which then shadows
  the method of the class), and the fields of its class. A child is held by value.
  A class of the library that is not listed (the string formats, the coercing schemas,
  \<^verbatim>\<open>NativeEnumSchema\<close>, \<^verbatim>\<open>TransformOnlySchema\<close>) or a subclass written by a caller is a
  node whose class is known by its \<^verbatim>\<open>_parse\<close> only.
\<close>

datatype 's kind =
    KString StringSchema
  | KNumber NumberSchema
  | KBoolean
  | KBigInt BigIntSchema
  | KDate DateSchema
  | KSymbol
  | KUndefined
  | KNull
  | KVoid
  | KAny
  | KUnknown
  | KNever
  | KNaN
  | KOptional 's
  | KNullable 's
  | KNullish 's
  | KDefault 's fallback
  | KCatch 's fallback
  | KTransform 's "jsval \<Rightarrow> jsval result"
  | KRefine 's "jsval \<Rightarrow> bool result" string
  | KPipe 's 's
  | KObject "(string \<times> 's) list" UnknownKeysMode "'s option"
  | KRecord 's 's
  | KMap 's 's
  | KSet 's SetSchema
  | KArray 's ArraySchema
  | KTuple "'s list" "'s option"
  | KLiteral "jsval list"
  | KEnum "string list"
  | KUnion "'s list"
  | KDiscriminatedUnion string "'s list" "(jsval \<times> 's) list"
  | KIntersection 's 's
  | KStringBool StringBoolSchema
  | KOther parser

datatype schema =
  Schema (errorCustomizer: "ErrorCustomizer option") (own_parse: "parser option")
         (kind: "schema kind")

text \<open>The \<^verbatim>\<open>_parse\<close> method of each class, over the parsers of the children.\<close>

fun class_parse :: "ErrorCustomizer option \<Rightarrow> parser kind \<Rightarrow> parser" where
  "class_parse ec (KString c) = StringSchema_parse ec c"
| "class_parse ec (KNumber c) = NumberSchema_parse ec c"
| "class_parse ec KBoolean = BooleanSchema_parse ec"
| "class_parse ec (KBigInt c) = BigIntSchema_parse ec c"
| "class_parse ec (KDate c) = DateSchema_parse ec c"
| "class_parse ec KSymbol = SymbolSchema_parse ec"
| "class_parse ec KUndefined = UndefinedSchema_parse ec"
| "class_parse ec KNull = NullSchema_parse ec"
| "class_parse ec KVoid = VoidSchema_parse ec"
| "class_parse ec KAny = AnySchema_parse"
| "class_parse ec KUnknown = UnknownSchema_parse"
| "class_parse ec KNever = NeverSchema_parse ec"
| "class_parse ec KNaN = NaNSchema_parse ec"
| "class_parse ec (KOptional inner) = OptionalSchema_parse inner"
| "class_parse ec (KNullable inner) = NullableSchema_parse inner"
| "class_parse ec (KNullish inner) = NullishSchema_parse inner"
| "class_parse ec (KDefault inner def) = DefaultSchema_parse inner def"
| "class_parse ec (KCatch inner c) = CatchSchema_parse inner c"
| "class_parse ec (KTransform inner f) = TransformSchema_parse inner f"
| "class_parse ec (KRefine inner f msg) = RefineSchema_parse ec inner f msg"
| "class_parse ec (KPipe first second) = PipeSchema_parse first second"
| "class_parse ec (KObject shape mode catchall) = ObjectSchema_parse ec shape mode catchall"
| "class_parse ec (KRecord k v) = RecordSchema_parse ec k v"
| "class_parse ec (KMap k v) = MapSchema_parse ec k v"
| "class_parse ec (KSet v c) = SetSchema_parse ec v c"
| "class_parse ec (KArray element c) = ArraySchema_parse ec element c"
| "class_parse ec (KTuple items rest) = TupleSchema_parse ec items rest"
| "class_parse ec (KLiteral vals) = LiteralSchema_parse ec vals"
| "class_parse ec (KEnum vals) = EnumSchema_parse ec vals"
| "class_parse ec (KUnion opts) = UnionSchema_parse ec opts"
| "class_parse ec (KDiscriminatedUnion disc opts table) =
     DiscriminatedUnionSchema_parse ec disc opts table"
| "class_parse ec (KIntersection l r) = IntersectionSchema_parse l r"
| "class_parse ec (KStringBool c) = StringBoolSchema_parse ec c"
| "class_parse ec (KOther p) = p"

text \<open>
  \<^verbatim>\<open>schema._parse(data, ctx)\<close>: the instance's own property when there is one, else
  the method of its class.
\<close>

primrec parse :: "schema \<Rightarrow> parser" where
  "parse (Schema ec own k) =
     (case own of Some f \<Rightarrow> f | None \<Rightarrow> class_parse ec (map_kind parse k))"

text \<open>The factory functions of index.ts and the constructors they call.\<close>

definition new_schema :: "schema kind \<Rightarrow> schema" where
  "new_schema k = Schema None None k"

text \<open>
  The constructor of the discriminated union builds its lookup table: for each option
  with a shape whose discriminator field is a literal schema, each literal value is
  mapped to the option; a value set again takes the later option.
\<close>

definition shape_of :: "schema \<Rightarrow> (string \<times> schema) list option" where
  "shape_of s = (case kind s of KObject shape mode catchall \<Rightarrow> Some shape | _ \<Rightarrow> None)"

definition literal_values :: "schema \<Rightarrow> jsval list option" where
  "literal_values s = (case kind s of KLiteral vals \<Rightarrow> Some vals | _ \<Rightarrow> None)"

definition discriminator_values :: "string \<Rightarrow> schema \<Rightarrow> jsval list" where
  "discriminator_values discriminator option =
     (case shape_of option of
        None \<Rightarrow> []
      | Some shape \<Rightarrow>
          (case map_of shape discriminator of
             None \<Rightarrow> []
           | Some discSchema \<Rightarrow>
               (case literal_values discSchema of None \<Rightarrow> [] | Some vals \<Rightarrow> vals)))"

definition build_map :: "string \<Rightarrow> schema list \<Rightarrow> (jsval \<times> schema) list" where
  "build_map discriminator opts =
     fold (\<lambda>option m. fold (\<lambda>v m'. assign m' v option) (discriminator_values discriminator option) m)
       opts []"

definition DiscriminatedUnionSchema :: "string \<Rightarrow> schema list \<Rightarrow> schema" where
  "DiscriminatedUnionSchema discriminator opts =
     new_schema (KDiscriminatedUnion discriminator opts (build_map discriminator opts))"

definition LiteralSchema :: "jsval list \<Rightarrow> schema" where
  "LiteralSchema vals = new_schema (KLiteral (new_Set vals))"

definition EnumSchema :: "string list \<Rightarrow> schema" where
  "EnumSchema vals = new_schema (KEnum (new_Set vals))"

definition ObjectSchema :: "(string \<times> schema) list \<Rightarrow> schema" where
  "ObjectSchema shape = new_schema (KObject shape Strip None)"

section \<open>Deriving nodes: the store of schema objects\<close>

text \<open>
  A schema is an object with an identity. The store lists the objects a caller can hold,
  an address is a position in it, and creating an object appends it. A method that
  derives a node takes the store and the address of \<^verbatim>\<open>this\<close> and returns the store it
  leaves and the address it returns. A node holds its children by value: the store
  tells what becomes of the object at an address, not what a parent sees of a child
  that is changed after the parent was built.
\<close>

type_synonym addr = nat

type_synonym store = "schema list"

definition alloc :: "store \<Rightarrow> schema \<Rightarrow> store \<times> addr" where
  "alloc h s = (h @ [s], length h)"

definition write_errorCustomizer :: "store \<Rightarrow> addr \<Rightarrow> ErrorCustomizer option \<Rightarrow> store" where
  "write_errorCustomizer h a ec = h[a := Schema ec (own_parse (h ! a)) (kind (h ! a))]"

definition write_own_parse :: "store \<Rightarrow> addr \<Rightarrow> parser \<Rightarrow> store" where
  "write_own_parse h a f = h[a := Schema (errorCustomizer (h ! a)) (Some f) (kind (h ! a))]"

definition write_kind :: "store \<Rightarrow> addr \<Rightarrow> schema kind \<Rightarrow> store" where
  "write_kind h a k = h[a := Schema (errorCustomizer (h ! a)) (own_parse (h ! a)) k]"

text \<open>
  \<^verbatim>\<open>BaseSchema.error\<close>: a new object of the same class takes every own property of
  \<^verbatim>\<open>this\<close>, and the customizer is then written to the new object.
\<close>

definition BaseSchema_error :: "store \<Rightarrow> addr \<Rightarrow> ErrorCustomizer \<Rightarrow> store \<times> addr" where
  "BaseSchema_error h this customizer =
     (let (h1, clone) = alloc h (h ! this)
      in (write_errorCustomizer h1 clone (Some customizer), clone))"

text \<open>A modifier method constructs a wrapper around \<^verbatim>\<open>this\<close>.\<close>

definition construct :: "store \<Rightarrow> schema kind \<Rightarrow> store \<times> addr" where
  "construct h k = alloc h (new_schema k)"

text \<open>
  The private \<^verbatim>\<open>_clone\<close> of a class constructs a new object of the class and copies
  the fields of the class and the error customizer to it. The chainable method then
  writes its one field to the clone and, when it is given a message that is not
  empty, the message as the clone's customizer.
\<close>

definition clone :: "store \<Rightarrow> addr \<Rightarrow> store \<times> addr" where
  "clone h this =
     (let (h1, c) = construct h (kind (h ! this))
      in (write_errorCustomizer h1 c (errorCustomizer (h ! this)), c))"

definition with_message :: "store \<Rightarrow> addr \<Rightarrow> string option \<Rightarrow> store" where
  "with_message h c msg =
     (case msg of
        None \<Rightarrow> h
      | Some m \<Rightarrow> if m \<noteq> [] then write_errorCustomizer h c (Some (Fixed m)) else h)"

definition chain :: "store \<Rightarrow> addr \<Rightarrow> schema kind \<Rightarrow> string option \<Rightarrow> store \<times> addr" where
  "chain h this k msg =
     (let (h1, c) = clone h this;
          h2 = write_kind h1 c k
      in (with_message h2 c msg, c))"

text \<open>
  \<^verbatim>\<open>preprocess\<close> (index.ts): binds the schema's current \<^verbatim>\<open>_parse\<close>, assigns a new
  \<^verbatim>\<open>_parse\<close> to the schema it was given, and returns that schema.
\<close>

definition preprocess :: "store \<Rightarrow> (jsval \<Rightarrow> jsval result) \<Rightarrow> addr \<Rightarrow> store \<times> addr" where
  "preprocess h fn schema =
     (let original = parse (h ! schema)
      in (write_own_parse h schema
            (\<lambda>d ctx. case fn d of Inl e \<Rightarrow> Inl e | Inr d' \<Rightarrow> original d' ctx),
          schema))"

text \<open>
  The deriving methods, by name and arguments; an argument that is a schema is its
  address. \<^verbatim>\<open>min\<close> and \<^verbatim>\<open>max\<close> with a big integer or a date are methods of their
  own. \<^verbatim>\<open>gt\<close> and \<^verbatim>\<open>lt\<close> of the number schema, whose bound is a floating-point
  sum, are left out.
\<close>

datatype derivation =
    M_error ErrorCustomizer
  | M_optional
  | M_nullable
  | M_nullish
  | M_default fallback
  | M_catch fallback
  | M_transform "jsval \<Rightarrow> jsval result"
  | M_refine "jsval \<Rightarrow> bool result" "string option"
  | M_pipe addr
  | M_min jsnum "string option"
  | M_max jsnum "string option"
  | M_length jsnum "string option"
  | M_min_bigint int
  | M_max_bigint int
  | M_min_date jsnum
  | M_max_date jsnum
  | M_size jsnum
  | M_nonempty "string option"
  | M_regex RegExp "string option"
  | M_includes string "string option"
  | M_startsWith string "string option"
  | M_endsWith string "string option"
  | M_trim
  | M_toLowerCase
  | M_toUpperCase
  | M_gte jsnum "string option"
  | M_lte jsnum "string option"
  | M_int "string option"
  | M_positive "string option"
  | M_negative "string option"
  | M_nonnegative "string option"
  | M_nonpositive "string option"
  | M_finite "string option"
  | M_multipleOf jsnum "string option"
  | M_step jsnum "string option"
  | M_strict
  | M_strip
  | M_passthrough
  | M_catchall addr
  | M_extend "(string \<times> addr) list"
  | M_merge addr
  | M_pick "string list"
  | M_omit "string list"
  | M_partial
  | M_required
  | M_keyof
  | M_rest addr
  | M_extract "string list"
  | M_exclude "string list"

definition or_default :: "string option \<Rightarrow> string \<Rightarrow> string option" where
  "or_default msg d = (case msg of None \<Rightarrow> Some d | Some m \<Rightarrow> Some m)"

definition string_method :: "store \<Rightarrow> addr \<Rightarrow> StringSchema \<Rightarrow> derivation \<Rightarrow> (store \<times> addr) option" where
  "string_method h this c m =
     (case m of
        M_min n msg \<Rightarrow> Some (chain h this (KString (c\<lparr>str_min := Some n\<rparr>)) msg)
      | M_max n msg \<Rightarrow> Some (chain h this (KString (c\<lparr>str_max := Some n\<rparr>)) msg)
      | M_length n msg \<Rightarrow> Some (chain h this (KString (c\<lparr>str_length := Some n\<rparr>)) msg)
      | M_regex r msg \<Rightarrow> Some (chain h this (KString (c\<lparr>str_regex := Some r\<rparr>)) msg)
      | M_includes s msg \<Rightarrow> Some (chain h this (KString (c\<lparr>str_includes := Some s\<rparr>)) msg)
      | M_startsWith s msg \<Rightarrow> Some (chain h this (KString (c\<lparr>str_startsWith := Some s\<rparr>)) msg)
      | M_endsWith s msg \<Rightarrow> Some (chain h this (KString (c\<lparr>str_endsWith := Some s\<rparr>)) msg)
      | M_trim \<Rightarrow> Some (chain h this (KString (c\<lparr>str_trim := True\<rparr>)) None)
      | M_toLowerCase \<Rightarrow> Some (chain h this (KString (c\<lparr>str_toLowerCase := True\<rparr>)) None)
      | M_toUpperCase \<Rightarrow> Some (chain h this (KString (c\<lparr>str_toUpperCase := True\<rparr>)) None)
      | M_nonempty msg \<Rightarrow>
          Some (chain h this (KString (c\<lparr>str_min := Some (Fin 1)\<rparr>))
                  (or_default msg ''String must not be empty''))
      | _ \<Rightarrow> None)"

definition number_method :: "store \<Rightarrow> addr \<Rightarrow> NumberSchema \<Rightarrow> derivation \<Rightarrow> (store \<times> addr) option" where
  "number_method h this c m =
     (case m of
        M_min n msg \<Rightarrow> Some (chain h this (KNumber (c\<lparr>num_min := Some n\<rparr>)) msg)
      | M_max n msg \<Rightarrow> Some (chain h this (KNumber (c\<lparr>num_max := Some n\<rparr>)) msg)
      | M_gte n msg \<Rightarrow> Some (chain h this (KNumber (c\<lparr>num_min := Some n\<rparr>)) msg)
      | M_lte n msg \<Rightarrow> Some (chain h this (KNumber (c\<lparr>num_max := Some n\<rparr>)) msg)
      | M_int msg \<Rightarrow> Some (chain h this (KNumber (c\<lparr>num_int := True\<rparr>)) msg)
      | M_positive msg \<Rightarrow> Some (chain h this (KNumber (c\<lparr>num_positive := True\<rparr>)) msg)
      | M_negative msg \<Rightarrow> Some (chain h this (KNumber (c\<lparr>num_negative := True\<rparr>)) msg)
      | M_nonnegative msg \<Rightarrow> Some (chain h this (KNumber (c\<lparr>num_nonnegative := True\<rparr>)) msg)
      | M_nonpositive msg \<Rightarrow> Some (chain h this (KNumber (c\<lparr>num_nonpositive := True\<rparr>)) msg)
      | M_finite msg \<Rightarrow> Some (chain h this (KNumber (c\<lparr>num_finite := True\<rparr>)) msg)
      | M_multipleOf n msg \<Rightarrow> Some (chain h this (KNumber (c\<lparr>num_multipleOf := Some n\<rparr>)) msg)
      | M_step n msg \<Rightarrow> Some (chain h this (KNumber (c\<lparr>num_multipleOf := Some n\<rparr>)) msg)
      | _ \<Rightarrow> None)"

text \<open>The chainable methods of the big-integer and date schemas take no message.\<close>

definition bigint_method :: "store \<Rightarrow> addr \<Rightarrow> BigIntSchema \<Rightarrow> derivation \<Rightarrow> (store \<times> addr) option" where
  "bigint_method h this c m =
     (case m of
        M_min_bigint n \<Rightarrow> Some (chain h this (KBigInt (c\<lparr>big_min := Some n\<rparr>)) None)
      | M_max_bigint n \<Rightarrow> Some (chain h this (KBigInt (c\<lparr>big_max := Some n\<rparr>)) None)
      | M_positive msg \<Rightarrow> Some (chain h this (KBigInt (c\<lparr>big_positive := True\<rparr>)) None)
      | M_negative msg \<Rightarrow> Some (chain h this (KBigInt (c\<lparr>big_negative := True\<rparr>)) None)
      | M_nonnegative msg \<Rightarrow> Some (chain h this (KBigInt (c\<lparr>big_nonnegative := True\<rparr>)) None)
      | M_nonpositive msg \<Rightarrow> Some (chain h this (KBigInt (c\<lparr>big_nonpositive := True\<rparr>)) None)
      | _ \<Rightarrow> None)"

definition date_method :: "store \<Rightarrow> addr \<Rightarrow> DateSchema \<Rightarrow> derivation \<Rightarrow> (store \<times> addr) option" where
  "date_method h this c m =
     (case m of
        M_min_date t \<Rightarrow> Some (chain h this (KDate (c\<lparr>date_min := Some t\<rparr>)) None)
      | M_max_date t \<Rightarrow> Some (chain h this (KDate (c\<lparr>date_max := Some t\<rparr>)) None)
      | _ \<Rightarrow> None)"

definition array_method ::
  "store \<Rightarrow> addr \<Rightarrow> schema \<Rightarrow> ArraySchema \<Rightarrow> derivation \<Rightarrow> (store \<times> addr) option" where
  "array_method h this element c m =
     (case m of
        M_min n msg \<Rightarrow> Some (chain h this (KArray element (c\<lparr>arr_min := Some n\<rparr>)) msg)
      | M_max n msg \<Rightarrow> Some (chain h this (KArray element (c\<lparr>arr_max := Some n\<rparr>)) msg)
      | M_length n msg \<Rightarrow> Some (chain h this (KArray element (c\<lparr>arr_length := Some n\<rparr>)) msg)
      | M_nonempty msg \<Rightarrow>
          Some (chain h this (KArray element (c\<lparr>arr_min := Some (Fin 1)\<rparr>))
                  (or_default msg ''Array must not be empty''))
      | _ \<Rightarrow> None)"

text \<open>The chainable methods of the set schema take no message.\<close>

definition set_method ::
  "store \<Rightarrow> addr \<Rightarrow> schema \<Rightarrow> SetSchema \<Rightarrow> derivation \<Rightarrow> (store \<times> addr) option" where
  "set_method h this valueSchema c m =
     (case m of
        M_min n msg \<Rightarrow> Some (chain h this (KSet valueSchema (c\<lparr>set_min := Some n\<rparr>)) None)
      | M_max n msg \<Rightarrow> Some (chain h this (KSet valueSchema (c\<lparr>set_max := Some n\<rparr>)) None)
      | M_size n \<Rightarrow> Some (chain h this (KSet valueSchema (c\<lparr>set_size := Some n\<rparr>)) None)
      | M_nonempty msg \<Rightarrow> Some (chain h this (KSet valueSchema (c\<lparr>set_min := Some (Fin 1)\<rparr>)) None)
      | _ \<Rightarrow> None)"

text \<open>
  The object schema: the policy methods clone; the shape methods construct a new object
  schema from a new shape, with the default policy and no customizer.
\<close>

definition delete_key :: "'k \<Rightarrow> ('k \<times> 'v) list \<Rightarrow> ('k \<times> 'v) list" where
  "delete_key k kvs = filter (\<lambda>(k', v). k' \<noteq> k) kvs"

definition object_method ::
  "store \<Rightarrow> addr \<Rightarrow> (string \<times> schema) list \<Rightarrow> UnknownKeysMode \<Rightarrow> schema option \<Rightarrow> derivation \<Rightarrow>
   (store \<times> addr) option" where
  "object_method h this shape mode catchall m =
     (case m of
        M_strict \<Rightarrow> Some (chain h this (KObject shape Strict catchall) None)
      | M_strip \<Rightarrow> Some (chain h this (KObject shape Strip catchall) None)
      | M_passthrough \<Rightarrow> Some (chain h this (KObject shape Passthrough catchall) None)
      | M_catchall a \<Rightarrow> Some (chain h this (KObject shape mode (Some (h ! a))) None)
      | M_required \<Rightarrow> Some (clone h this)
      | M_extend extension \<Rightarrow>
          Some (construct h
            (KObject (fold (\<lambda>(k, a) acc. assign acc k (h ! a)) extension shape) Strip None))
      | M_merge other \<Rightarrow>
          Some (construct h
            (KObject
               (fold (\<lambda>(k, s) acc. assign acc k s)
                  (case shape_of (h ! other) of None \<Rightarrow> [] | Some shape' \<Rightarrow> shape') shape)
               Strip None))
      | M_pick keys \<Rightarrow>
          Some (construct h
            (KObject
               (fold (\<lambda>k acc. case map_of shape k of None \<Rightarrow> acc | Some s \<Rightarrow> assign acc k s)
                  keys [])
               Strip None))
      | M_omit keys \<Rightarrow>
          Some (construct h (KObject (fold delete_key keys shape) Strip None))
      | M_partial \<Rightarrow>
          Some (construct h
            (KObject (map (\<lambda>(k, s). (k, new_schema (KOptional s))) shape) Strip None))
      | M_keyof \<Rightarrow> Some (construct h (KEnum (new_Set (map fst shape))))
      | _ \<Rightarrow> None)"

definition enum_method :: "store \<Rightarrow> addr \<Rightarrow> string list \<Rightarrow> derivation \<Rightarrow> (store \<times> addr) option" where
  "enum_method h this vals m =
     (case m of
        M_extract vs \<Rightarrow> Some (construct h (KEnum (new_Set vs)))
      | M_exclude vs \<Rightarrow> Some (construct h (KEnum (new_Set (filter (\<lambda>v. v \<notin> set vs) vals))))
      | _ \<Rightarrow> None)"

text \<open>The methods every class inherits from \<^verbatim>\<open>BaseSchema\<close>.\<close>

definition base_method :: "store \<Rightarrow> addr \<Rightarrow> derivation \<Rightarrow> (store \<times> addr) option" where
  "base_method h this m =
     (case m of
        M_error customizer \<Rightarrow> Some (BaseSchema_error h this customizer)
      | M_optional \<Rightarrow> Some (construct h (KOptional (h ! this)))
      | M_nullable \<Rightarrow> Some (construct h (KNullable (h ! this)))
      | M_nullish \<Rightarrow> Some (construct h (KNullish (h ! this)))
      | M_default v \<Rightarrow> Some (construct h (KDefault (h ! this) v))
      | M_catch v \<Rightarrow> Some (construct h (KCatch (h ! this) v))
      | M_transform fn \<Rightarrow> Some (construct h (KTransform (h ! this) fn))
      | M_refine fn msg \<Rightarrow>
          Some (construct h (KRefine (h ! this) fn (case msg of None \<Rightarrow> ''Invalid value'' | Some m \<Rightarrow> m)))
      | M_pipe a \<Rightarrow> Some (construct h (KPipe (h ! this) (h ! a)))
      | _ \<Rightarrow> None)"

text \<open>
  Calling a method on a node: a method of \<^verbatim>\<open>BaseSchema\<close>, or one the class of the
  node declares; a class that does not declare the method has none to call.
\<close>

definition class_method :: "store \<Rightarrow> addr \<Rightarrow> derivation \<Rightarrow> (store \<times> addr) option" where
  "class_method h this m =
     (case kind (h ! this) of
        KString c \<Rightarrow> string_method h this c m
      | KNumber c \<Rightarrow> number_method h this c m
      | KBigInt c \<Rightarrow> bigint_method h this c m
      | KDate c \<Rightarrow> date_method h this c m
      | KArray element c \<Rightarrow> array_method h this element c m
      | KSet valueSchema c \<Rightarrow> set_method h this valueSchema c m
      | KObject shape mode catchall \<Rightarrow> object_method h this shape mode catchall m
      | KEnum vals \<Rightarrow> enum_method h this vals m
      | KTuple items rest \<Rightarrow>
          (case m of M_rest a \<Rightarrow> Some (construct h (KTuple items (Some (h ! a)))) | _ \<Rightarrow> None)
      | _ \<Rightarrow> None)"

definition derive :: "store \<Rightarrow> addr \<Rightarrow> derivation \<Rightarrow> (store \<times> addr) option" where
  "derive h this m =
     (case base_method h this m of
        Some r \<Rightarrow> Some r
      | None \<Rightarrow> class_method h this m)"


section \<open>The specification's vocabulary\<close>

text \<open>
  A result that raises a validation error with exactly one issue, of the given code, at
  the given path.
\<close>

definition single_issue :: "jsval result \<Rightarrow> string \<Rightarrow> segment list \<Rightarrow> bool" where
  "single_issue r c p =
     (case r of
        Inl (ValidationError [i]) \<Rightarrow> code i = c \<and> issue_path i = p
      | _ \<Rightarrow> False)"

text \<open>
  Checks that run in a fixed order and fail fast: the list of the checks, each with
  whether it is violated and what it reports, and the report of the first violated.
\<close>

definition first_violation :: "(bool \<times> 'a) list \<Rightarrow> 'a option" where
  "first_violation checks = map_option snd (find fst checks)"

text \<open>
  A check of a configured bound: not violated when the bound is not configured, and
  reporting a code and a message that names the bound.
\<close>

definition check ::
  "'a option \<Rightarrow> ('a \<Rightarrow> bool) \<Rightarrow> string \<Rightarrow> ('a \<Rightarrow> message) \<Rightarrow> bool \<times> string \<times> message" where
  "check bound bad cd msg =
     (case bound of None \<Rightarrow> (False, cd, []) | Some x \<Rightarrow> (bad x, cd, msg x))"

text \<open>
  The string schema as the specification words it: trim, then case folding; then the
  checks exact length, min, max, prefix, suffix, contains, pattern. The last four
  report the same code and are told apart by their messages.
\<close>

definition spec_normalize :: "StringSchema \<Rightarrow> string \<Rightarrow> string" where
  "spec_normalize c s =
     (let trimmed = (if str_trim c then trim s else s);
          lowered = (if str_toLowerCase c then toLowerCase trimmed else trimmed)
      in if str_toUpperCase c then toUpperCase lowered else lowered)"

definition spec_string_checks :: "StringSchema \<Rightarrow> string \<Rightarrow> (bool \<times> string \<times> message) list" where
  "spec_string_checks c str =
     [check (str_length c) (\<lambda>n. \<not> num_eq (num_of_nat (length str)) n) ''invalid_length''
        (\<lambda>n. [Lit ''String must be exactly '', Shown (VNum n), Lit '' characters'']),
      check (str_min c) (\<lambda>n. num_lt (num_of_nat (length str)) n) ''too_small''
        (\<lambda>n. [Lit ''String must be at least '', Shown (VNum n), Lit '' characters'']),
      check (str_max c) (\<lambda>n. num_gt (num_of_nat (length str)) n) ''too_big''
        (\<lambda>n. [Lit ''String must be at most '', Shown (VNum n), Lit '' characters'']),
      check (str_startsWith c) (\<lambda>p. \<not> prefix p str) ''invalid_string''
        (\<lambda>p. [Lit ''String must start with '', Lit (quoted p)]),
      check (str_endsWith c) (\<lambda>p. \<not> suffix p str) ''invalid_string''
        (\<lambda>p. [Lit ''String must end with '', Lit (quoted p)]),
      check (str_includes c) (\<lambda>p. \<not> sublist p str) ''invalid_string''
        (\<lambda>p. [Lit ''String must include '', Lit (quoted p)]),
      check (str_regex c) (\<lambda>r. \<not> test r str) ''invalid_string''
        (\<lambda>r. [Lit ''String must match pattern '', Lit (''/'' @ source r @ ''/'' @ flags r)])]"

text \<open>A string schema whose pattern, if it has one, keeps no state between calls.\<close>

definition stateless_pattern :: "StringSchema \<Rightarrow> bool" where
  "stateless_pattern c = (case str_regex c of None \<Rightarrow> True | Some r \<Rightarrow> \<not> stateful r)"

text \<open>The size checks of the set schema: exact size, min, max.\<close>

definition spec_set_checks :: "SetSchema \<Rightarrow> nat \<Rightarrow> (bool \<times> string) list" where
  "spec_set_checks c n =
     [(violates (set_size c) (\<lambda>k. \<not> num_eq (num_of_nat n) k), ''invalid_size''),
      (violates (set_min c) (\<lambda>k. num_lt (num_of_nat n) k), ''too_small''),
      (violates (set_max c) (\<lambda>k. num_gt (num_of_nat n) k), ''too_big'')]"

text \<open>The issues a validation raises; none when it returns.\<close>

definition issues_of :: "jsval result \<Rightarrow> Issue list" where
  "issues_of r = (case r of Inl (ValidationError es) \<Rightarrow> es | _ \<Rightarrow> [])"

definition fails_validation :: "jsval result \<Rightarrow> bool" where
  "fails_validation r = (case r of Inl (ValidationError es) \<Rightarrow> True | _ \<Rightarrow> False)"

definition returns :: "jsval result \<Rightarrow> bool" where
  "returns r = (case r of Inr v \<Rightarrow> True | Inl e \<Rightarrow> False)"

text \<open>
  Aggregation, as the specification words it for the composites. Validating one entry
  comes to one of three outcomes: an exception that is no validation error, a rejection
  with its issues, or the parsed entry. The composite raises the first such exception
  of its entries, in their order; without one it raises a validation error holding the
  issues of all rejected entries, in order, when there are any; and else it returns the
  value built from the parsed entries.
\<close>

datatype 'a outcome = Faulted string | Rejected "Issue list" | Accepted 'a

primrec faults_of :: "'a outcome \<Rightarrow> string list" where
  "faults_of (Faulted e) = [e]"
| "faults_of (Rejected es) = []"
| "faults_of (Accepted a) = []"

primrec rejections_of :: "'a outcome \<Rightarrow> Issue list" where
  "rejections_of (Faulted e) = []"
| "rejections_of (Rejected es) = es"
| "rejections_of (Accepted a) = []"

primrec accepted_of :: "'a outcome \<Rightarrow> 'a list" where
  "accepted_of (Faulted e) = []"
| "accepted_of (Rejected es) = []"
| "accepted_of (Accepted a) = [a]"

definition faults :: "'a outcome list \<Rightarrow> string list" where
  "faults outcomes = concat (map faults_of outcomes)"

definition rejections :: "'a outcome list \<Rightarrow> Issue list" where
  "rejections outcomes = concat (map rejections_of outcomes)"

definition accepted :: "'a outcome list \<Rightarrow> 'a list" where
  "accepted outcomes = concat (map accepted_of outcomes)"

definition aggregate :: "'a outcome list \<Rightarrow> ('a list \<Rightarrow> jsval) \<Rightarrow> jsval result" where
  "aggregate outcomes build =
     (case faults outcomes of
        e # es \<Rightarrow> Inl (OtherError e)
      | [] \<Rightarrow>
          if rejections outcomes \<noteq> [] then Inl (ValidationError (rejections outcomes))
          else Inr (build (accepted outcomes)))"

definition outcome_of :: "jsval result \<Rightarrow> jsval outcome" where
  "outcome_of r =
     (case r of
        Inl (OtherError e) \<Rightarrow> Faulted e
      | Inl (ValidationError es) \<Rightarrow> Rejected es
      | Inr v \<Rightarrow> Accepted v)"

text \<open>
  The second validator of an entry runs only when the first has accepted: the outcome
  of the first, when it is no acceptance, is the outcome of the entry.
\<close>

definition and_then :: "jsval outcome \<Rightarrow> (jsval \<Rightarrow> 'a outcome) \<Rightarrow> 'a outcome" where
  "and_then first second =
     (case first of
        Faulted e \<Rightarrow> Faulted e
      | Rejected es \<Rightarrow> Rejected es
      | Accepted k \<Rightarrow> second k)"

text \<open>
  An entry of a record: its key is validated and then, when the key is accepted, its
  value. The parsed value is stored under the key as the input has it.
\<close>

definition record_entry ::
  "parser \<Rightarrow> parser \<Rightarrow> jsval \<Rightarrow> ParseContext \<Rightarrow> string \<Rightarrow> (string \<times> jsval) outcome" where
  "record_entry keySchema valueSchema input ctx key =
     and_then (outcome_of (keySchema (VStr key) (descend ctx [Key key] input)))
       (\<lambda>k. and_then (outcome_of (valueSchema (get_prop input key) (descend ctx [Key key] input)))
          (\<lambda>v. Accepted (key, v)))"

definition record_output :: "(string \<times> jsval) list \<Rightarrow> jsval" where
  "record_output entries = VObject (fold (\<lambda>(k, v) out. assign out k v) entries [])"

text \<open>
  The entry at a position of a map: its key and then, when the key is accepted, its
  value; the parsed value is stored under the parsed key.
\<close>

definition map_entry ::
  "parser \<Rightarrow> parser \<Rightarrow> jsval \<Rightarrow> ParseContext \<Rightarrow> nat \<times> jsval \<times> jsval \<Rightarrow>
   (jsval \<times> jsval) outcome" where
  "map_entry keySchema valueSchema input ctx e =
     (case e of (index, key, val) \<Rightarrow>
        and_then (outcome_of (keySchema key (descend ctx [Index index, Key ''key''] input)))
          (\<lambda>k. and_then
             (outcome_of (valueSchema val (descend ctx [Index index, Key ''value''] input)))
             (\<lambda>v. Accepted (k, v))))"

definition map_output :: "(jsval \<times> jsval) list \<Rightarrow> jsval" where
  "map_output entries = VMap (fold (\<lambda>(k, v) out. map_set out k v) entries [])"

text \<open>The member at a position of a set.\<close>

definition set_member :: "parser \<Rightarrow> jsval \<Rightarrow> ParseContext \<Rightarrow> nat \<times> jsval \<Rightarrow> jsval outcome" where
  "set_member valueSchema input ctx e =
     (case e of (index, val) \<Rightarrow> outcome_of (valueSchema val (descend ctx [Index index] input)))"

definition set_output :: "jsval list \<Rightarrow> jsval" where
  "set_output members = VSet (fold (\<lambda>v out. set_add out v) members [])"

text \<open>
  The member a discriminator value selects: the last option, in declared order, whose
  discriminator field is a literal schema holding the value.
\<close>

definition last_declaring :: "string \<Rightarrow> schema list \<Rightarrow> jsval \<Rightarrow> schema option" where
  "last_declaring discriminator opts v =
     find (\<lambda>option. v \<in> set (discriminator_values discriminator option)) (rev opts)"

text \<open>
  A store and address that a call leaves: the address is new, and the objects the store
  held before the call are as they were.
\<close>

definition extends_store :: "store \<Rightarrow> store \<times> addr \<Rightarrow> bool" where
  "extends_store h r =
     (snd r = length h \<and> length (fst r) = Suc (length h) \<and> take (length h) (fst r) = h)"

section \<open>Example schemas\<close>

text \<open>The nodes \<^verbatim>\<open>string()\<close> and \<^verbatim>\<open>number()\<close>.\<close>

definition string_node :: schema where
  "string_node = new_schema (KString new_StringSchema)"

definition number_node :: schema where
  "number_node = new_schema (KNumber new_NumberSchema)"

text \<open>
  Object schemas with a literal \<^verbatim>\<open>type\<close> field: two that declare "a" (the second with a
  number \<^verbatim>\<open>value\<close>), and one that declares "b".
\<close>

definition member_a :: schema where
  "member_a = ObjectSchema [(''type'', LiteralSchema [VStr ''a'']), (''value'', string_node)]"

definition member_a2 :: schema where
  "member_a2 = ObjectSchema [(''type'', LiteralSchema [VStr ''a'']), (''value'', number_node)]"

definition member_b :: schema where
  "member_b = ObjectSchema [(''type'', LiteralSchema [VStr ''b'']), (''value'', number_node)]"

text \<open>\<^verbatim>\<open>map(string(), number())\<close> and \<^verbatim>\<open>set(number())\<close>.\<close>

definition map_node :: schema where
  "map_node = new_schema (KMap string_node number_node)"

definition set_node :: schema where
  "set_node = new_schema (KSet number_node new_SetSchema)"


definition to_changed :: "jsval \<Rightarrow> jsval result" where
  "to_changed v = Inr (VStr ''changed'')"

text \<open>A validator that throws as soon as it is invoked.\<close>

definition invoked :: parser where
  "invoked d ctx = Inl (OtherError ''invoked'')"


text \<open>
  A validator that throws as soon as it is invoked on the given value, and else is the
  given validator.
\<close>

definition throws_on :: "jsval \<Rightarrow> parser \<Rightarrow> parser" where
  "throws_on x p d ctx = (if d = x then Inl (OtherError ''invoked'') else p d ctx)"

text \<open>
  The host's matcher for the expression \<^verbatim>\<open>/^[0-9]+$/\<close>, and the one for \<^verbatim>\<open>/a/g\<close>, which
  finds the first "a" from the index on.
\<close>

definition match_digits :: "string \<Rightarrow> nat \<Rightarrow> nat option" where
  "match_digits str start =
     (if start = 0 \<and> str \<noteq> [] \<and> list_all (\<lambda>c. c \<in> set ''0123456789'') str
      then Some (length str) else None)"

definition match_a :: "string \<Rightarrow> nat \<Rightarrow> nat option" where
  "match_a str start =
     (if CHR ''a'' \<in> set (drop start str)
      then Some (start + length (takeWhile (\<lambda>c. c \<noteq> CHR ''a'') (drop start str)) + 1)
      else None)"

text \<open>The node \<^verbatim>\<open>set(string().toLowerCase()).min(3)\<close>.\<close>

definition lower_set_node :: schema where
  "lower_set_node =
     new_schema (KSet (new_schema (KString (new_StringSchema\<lparr>str_toLowerCase := True\<rparr>)))
       (new_SetSchema\<lparr>set_min := Some (Fin 3)\<rparr>))"

section \<open>Properties\<close>

subsection \<open>Auxiliary facts\<close>

lemma single_issue_fail [simp]:
  "single_issue (Inl (fail ec c m ctx e r)) c' p = (c = c' \<and> path ctx = p)"
  by (simp add: single_issue_def fail_def mkIssue_def Let_def)

lemma of_char_lower:
  "(of_char (lower_char c) :: nat) =
     (let n = of_char c
      in if (65 \<le> n \<and> n \<le> 90) \<or> (192 \<le> n \<and> n \<le> 222 \<and> n \<noteq> 215) then n + 32 else n)"
  by (auto simp add: lower_char_def Let_def)

lemma of_char_upper:
  "(of_char (upper_char c) :: nat) =
     (let n = of_char c
      in if (97 \<le> n \<and> n \<le> 122) \<or> (224 \<le> n \<and> n \<le> 254 \<and> n \<noteq> 247) then n - 32 else n)"
  by (auto simp add: upper_char_def Let_def)

lemma char_eq_of_char: "(a = b) = ((of_char a :: nat) = of_char b)"
  by auto

lemma lower_lower [simp]: "lower_char (lower_char c) = lower_char c"
  by (auto simp add: char_eq_of_char of_char_lower Let_def)

lemma upper_upper [simp]: "upper_char (upper_char c) = upper_char c"
  by (auto simp add: char_eq_of_char of_char_upper Let_def)

lemma upper_lower_upper [simp]:
  "upper_char (lower_char (upper_char (lower_char c))) = upper_char (lower_char c)"
  by (auto simp add: char_eq_of_char of_char_upper of_char_lower Let_def)

lemma is_space_lower [simp]: "is_space (lower_char c) = is_space c"
  by (auto simp add: is_space_def of_char_lower Let_def)

lemma is_space_upper [simp]: "is_space (upper_char c) = is_space c"
  by (auto simp add: is_space_def of_char_upper Let_def)

lemma sharp_s_lower [simp]: "((of_char (lower_char c) :: nat) = 223) = ((of_char c :: nat) = 223)"
  by (auto simp add: of_char_lower Let_def)

lemma sharp_s_upper [simp]: "((of_char (upper_char c) :: nat) = 223) = ((of_char c :: nat) = 223)"
  by (auto simp add: of_char_upper Let_def)

lemma upper_units_not_Nil [simp]: "upper_units c \<noteq> []"
  by (simp add: upper_units_def)

lemma upper_units_rev [simp]: "rev (upper_units c) = upper_units c"
  by (simp add: upper_units_def)

lemma upper_S [simp]: "upper_char CHR ''S'' = CHR ''S''"
  by code_simp

lemma lower_S [simp]: "lower_char CHR ''S'' = CHR ''s''"
  by code_simp

lemma upper_s [simp]: "upper_char CHR ''s'' = CHR ''S''"
  by code_simp

lemma upper_units_S [simp]: "upper_units CHR ''S'' = ''S''" "upper_units CHR ''s'' = ''S''"
  by (simp_all add: upper_units_def)

lemma upper_units_space: "x \<in> set (upper_units c) \<Longrightarrow> is_space x = is_space c"
proof (cases "(of_char c :: nat) = 223")
  case True
  assume "x \<in> set (upper_units c)"
  with True have "x = CHR ''S''" by (simp add: upper_units_def)
  with True show ?thesis by (simp add: is_space_def)
next
  case False
  assume "x \<in> set (upper_units c)"
  with False have "x = upper_char c" by (simp add: upper_units_def)
  then show ?thesis by simp
qed

lemma upper_units_upper [simp]: "concat (map upper_units (upper_units c)) = upper_units c"
  by (cases "(of_char c :: nat) = 223") (simp_all add: upper_units_def)

lemma lower_upper_units:
  "concat (map (upper_units \<circ> lower_char) (upper_units (lower_char c))) =
   upper_units (lower_char c)"
  by (cases "(of_char c :: nat) = 223") (simp_all add: upper_units_def)

lemma trim_map:
  assumes "\<And>c. is_space (f c) = is_space c"
  shows "trim (map f s) = map f (trim s)"
proof -
  have "is_space \<circ> f = is_space" using assms by (simp add: fun_eq_iff)
  then show ?thesis
    by (simp add: trim_def dropWhile_map rev_map)
qed

lemma dropWhile_concat_map:
  assumes "\<And>c. f c \<noteq> []" and "\<And>c x. x \<in> set (f c) \<Longrightarrow> P x = P c"
  shows "dropWhile P (concat (map f s)) = concat (map f (dropWhile P s))"
proof (induction s)
  case Nil
  then show ?case by simp
next
  case (Cons c s)
  show ?case
  proof (cases "P c")
    case True
    with assms(2) have "\<forall>x \<in> set (f c). P x" by blast
    with True Cons show ?thesis by (simp add: dropWhile_append)
  next
    case False
    from assms(1) obtain x xs where fc: "f c = x # xs" by (cases "f c") auto
    with assms(2) [of x c] False have "\<not> P x" by simp
    with fc False show ?thesis by simp
  qed
qed

lemma rev_concat_map:
  assumes "\<And>c. rev (f c) = f c"
  shows "rev (concat (map f s)) = concat (map f (rev s))"
  using assms by (induction s) simp_all

lemma trim_concat_map:
  assumes "\<And>c. f c \<noteq> []" and "\<And>c x. x \<in> set (f c) \<Longrightarrow> is_space x = is_space c"
    and "\<And>c. rev (f c) = f c"
  shows "trim (concat (map f s)) = concat (map f (trim s))"
  by (simp add: trim_def dropWhile_concat_map [where f = f, OF assms(1) assms(2)]
      rev_concat_map [where f = f, OF assms(3)])

lemma dropWhile_fixed:
  assumes "dropWhile P s = s"
  shows "dropWhile P (rev (dropWhile P (rev s))) = rev (dropWhile P (rev s))"
proof (cases "rev (dropWhile P (rev s))")
  case Nil
  show ?thesis unfolding Nil by simp
next
  case (Cons a u)
  have "rev s = takeWhile P (rev s) @ dropWhile P (rev s)" by simp
  then have "s = rev (dropWhile P (rev s)) @ rev (takeWhile P (rev s))"
    by (metis rev_append rev_rev_ident)
  with Cons have s: "s = a # u @ rev (takeWhile P (rev s))" by simp
  then have "s \<noteq> []" by auto
  with assms have "\<not> P (hd s)" by (metis hd_dropWhile)
  with s have "\<not> P a" by (metis list.sel(1))
  with Cons show ?thesis by simp
qed

lemma trim_trim [simp]: "trim (trim s) = trim s"
proof -
  let ?t = "dropWhile is_space s"
  have "dropWhile is_space ?t = ?t" by simp
  from dropWhile_fixed [OF this] show ?thesis
    by (simp add: trim_def)
qed

lemma trim_lower [simp]: "trim (toLowerCase s) = toLowerCase (trim s)"
  by (simp add: toLowerCase_def trim_map)

lemma trim_upper [simp]: "trim (toUpperCase s) = toUpperCase (trim s)"
  unfolding toUpperCase_def
  by (rule trim_concat_map) (simp_all add: upper_units_space)

lemma lower_idem [simp]: "toLowerCase (toLowerCase s) = toLowerCase s"
  by (simp add: toLowerCase_def)

lemma upper_idem [simp]: "toUpperCase (toUpperCase s) = toUpperCase s"
  by (induction s) (simp_all add: toUpperCase_def)

lemma upper_lower_idem [simp]:
  "toUpperCase (toLowerCase (toUpperCase (toLowerCase s))) = toUpperCase (toLowerCase s)"
  by (induction s) (simp_all add: toUpperCase_def toLowerCase_def lower_upper_units)

lemma str_normalize_idem: "str_normalize c (str_normalize c s) = str_normalize c s"
  by (simp add: str_normalize_def Let_def)

text \<open>
  The no-break space is trimmed, the accented letters have their case mapping, and the
  sharp s is upper-cased to "SS".
\<close>

lemma Latin_1_examples:
  "trim [CHR 0xA0, CHR ''a'', CHR 0x20] = ''a''"
  "toLowerCase [CHR 0xC0, CHR ''B''] = [CHR 0xE0, CHR ''b'']"
  "toUpperCase [CHR 0xE0, CHR 0xDF, CHR 0xF7] = [CHR 0xC0, CHR ''S'', CHR ''S'', CHR 0xF7]"
  by code_simp+

lemma spec_normalize_eq: "spec_normalize c s = str_normalize c s"
  by (simp add: spec_normalize_def str_normalize_def Let_def)

lemma check_fst: "fst (check b bad cd msg) = violates b bad"
  by (simp add: check_def violates_def split: option.splits)

lemma check_snd: "violates b bad \<Longrightarrow> snd (check b bad cd msg) = (cd, msg (the b))"
  by (simp add: check_def violates_def split: option.splits)

lemma after_test_stateless: "\<not> stateful r \<Longrightarrow> after_test r str = r"
  by (simp add: after_test_def)

lemma StringSchema_after_stateless:
  "stateless_pattern c \<Longrightarrow> StringSchema_after c d = c"
  by (cases d; cases "str_regex c")
     (simp_all add: StringSchema_after_def stateless_pattern_def after_test_stateless Let_def)

lemma faults_simps [simp]:
  "faults [] = []"
  "faults (Faulted e # outs) = e # faults outs"
  "faults (Rejected es # outs) = faults outs"
  "faults (Accepted a # outs) = faults outs"
  by (simp_all add: faults_def)

lemma rejections_simps [simp]:
  "rejections [] = []"
  "rejections (Faulted e # outs) = rejections outs"
  "rejections (Rejected es # outs) = es @ rejections outs"
  "rejections (Accepted a # outs) = rejections outs"
  by (simp_all add: rejections_def)

lemma accepted_simps [simp]:
  "accepted [] = []"
  "accepted (Faulted e # outs) = accepted outs"
  "accepted (Rejected es # outs) = accepted outs"
  "accepted (Accepted a # outs) = a # accepted outs"
  by (simp_all add: accepted_def)

lemma StringSchema_parse_Inr:
  "StringSchema_parse ec c d ctx = Inr out \<Longrightarrow>
   \<exists>s. d = VStr s \<and> out = VStr (str_normalize c s)"
  by (cases d) (auto simp add: StringSchema_parse_def Let_def split: if_splits)

lemma StringSchema_parse_same_normal_form:
  "StringSchema_parse ec c (VStr s) ctx = Inr out \<Longrightarrow>
   str_normalize c t = str_normalize c s \<Longrightarrow>
   StringSchema_parse ec' c (VStr t) ctx' = Inr out"
  by (simp add: StringSchema_parse_def Let_def split: if_splits)

subsection \<open>The string schema\<close>

text \<open>
  Claim C8. For every string schema and every string input, the input is normalised
  (trim, then case folding) before any check, and the checks run in the order exact
  length, min, max, prefix, suffix, contains, pattern: when none is violated the
  normalised string is returned, and otherwise exactly one issue is raised, at the
  current path, which is the issue of the first violated check, with its code and its
  message.
\<close>

theorem StringSchema_checks_in_order:
  "(case first_violation (spec_string_checks c (spec_normalize c s)) of
      None \<Rightarrow> StringSchema_parse ec c (VStr s) ctx = Inr (VStr (spec_normalize c s))
    | Some (cd, msg) \<Rightarrow>
        StringSchema_parse ec c (VStr s) ctx = Inl (fail ec cd msg ctx None None) \<and>
        single_issue (StringSchema_parse ec c (VStr s) ctx) cd (path ctx))"
  by (simp add: first_violation_def spec_string_checks_def spec_normalize_eq check_fst check_snd
      StringSchema_parse_def Let_def startsWith_def endsWith_def includesStr_def)

text \<open>
  Witness for C8, on trimming schemas. With the prefix "x" and the pattern
  \<^verbatim>\<open>/^[0-9]+$/\<close>, the input " ab " violates both and the issue is the prefix's;
  without the prefix it is the pattern's. With exact length 5, min 3 and the prefix
  "x", the input " ab " violates all three and the issue is the exact length's. With
  the prefix "a" and the pattern, the input " a1 " violates the pattern only; with the
  prefix "1" and the pattern, the input " 12 " is returned as "12".
\<close>

theorem StringSchema_checks_in_order_witness:
  "StringSchema_parse None
     (new_StringSchema\<lparr>str_trim := True, str_startsWith := Some ''x'',
        str_regex := Some (RegExp ''^[0-9]+$'' [] 0 match_digits)\<rparr>)
     (VStr '' ab '') root_ctx
   = Inl (ValidationError
       [mkIssue ''invalid_string'' []
          [Lit ''String must start with '', Lit (quoted ''x'')] None None]) \<and>
   StringSchema_parse None
     (new_StringSchema\<lparr>str_trim := True,
        str_regex := Some (RegExp ''^[0-9]+$'' [] 0 match_digits)\<rparr>)
     (VStr '' ab '') root_ctx
   = Inl (ValidationError
       [mkIssue ''invalid_string'' []
          [Lit ''String must match pattern '', Lit ''/^[0-9]+$/''] None None]) \<and>
   StringSchema_parse None
     (new_StringSchema\<lparr>str_trim := True, str_length := Some (Fin 5), str_min := Some (Fin 3),
        str_startsWith := Some ''x''\<rparr>)
     (VStr '' ab '') root_ctx
   = Inl (ValidationError
       [mkIssue ''invalid_length'' []
          [Lit ''String must be exactly '', Shown (VNum (Fin 5)), Lit '' characters'']
          None None]) \<and>
   StringSchema_parse None
     (new_StringSchema\<lparr>str_trim := True, str_startsWith := Some ''a'',
        str_regex := Some (RegExp ''^[0-9]+$'' [] 0 match_digits)\<rparr>)
     (VStr '' a1 '') root_ctx
   = Inl (ValidationError
       [mkIssue ''invalid_string'' []
          [Lit ''String must match pattern '', Lit ''/^[0-9]+$/''] None None]) \<and>
   StringSchema_parse None
     (new_StringSchema\<lparr>str_trim := True, str_startsWith := Some ''1'',
        str_regex := Some (RegExp ''^[0-9]+$'' [] 0 match_digits)\<rparr>)
     (VStr '' 12 '') root_ctx
   = Inr (VStr ''12'')"
proof -
  let ?r = "RegExp ''^[0-9]+$'' [] 0 match_digits"
  let ?c1 = "new_StringSchema\<lparr>str_trim := True, str_startsWith := Some ''x'',
               str_regex := Some ?r\<rparr>"
  let ?c2 = "new_StringSchema\<lparr>str_trim := True, str_regex := Some ?r\<rparr>"
  let ?c3 = "new_StringSchema\<lparr>str_trim := True, str_length := Some (Fin 5),
               str_min := Some (Fin 3), str_startsWith := Some ''x''\<rparr>"
  let ?c4 = "new_StringSchema\<lparr>str_trim := True, str_startsWith := Some ''a'',
               str_regex := Some ?r\<rparr>"
  let ?c5 = "new_StringSchema\<lparr>str_trim := True, str_startsWith := Some ''1'',
               str_regex := Some ?r\<rparr>"
  have 1: "first_violation (spec_string_checks ?c1 (spec_normalize ?c1 '' ab ''))
        = Some (''invalid_string'', [Lit ''String must start with '', Lit (quoted ''x'')])"
    by code_simp
  have 2: "first_violation (spec_string_checks ?c2 (spec_normalize ?c2 '' ab ''))
        = Some (''invalid_string'', [Lit ''String must match pattern '', Lit ''/^[0-9]+$/''])"
    by code_simp
  have 3: "first_violation (spec_string_checks ?c3 (spec_normalize ?c3 '' ab ''))
        = Some (''invalid_length'',
            [Lit ''String must be exactly '', Shown (VNum (Fin 5)), Lit '' characters''])"
    by code_simp
  have 4: "first_violation (spec_string_checks ?c4 (spec_normalize ?c4 '' a1 ''))
        = Some (''invalid_string'', [Lit ''String must match pattern '', Lit ''/^[0-9]+$/''])"
    by code_simp
  have 5: "spec_normalize ?c5 '' 12 '' = ''12''"
    by code_simp
  have 6: "first_violation (spec_string_checks ?c5 ''12'') = None"
    by code_simp
  from 1 StringSchema_checks_in_order [where c = ?c1 and s = "'' ab ''" and ec = None
      and ctx = root_ctx]
  have a: "StringSchema_parse None ?c1 (VStr '' ab '') root_ctx
   = Inl (ValidationError
       [mkIssue ''invalid_string'' []
          [Lit ''String must start with '', Lit (quoted ''x'')] None None])"
    by (simp add: fail_def root_ctx_def)
  from 2 StringSchema_checks_in_order [where c = ?c2 and s = "'' ab ''" and ec = None
      and ctx = root_ctx]
  have b: "StringSchema_parse None ?c2 (VStr '' ab '') root_ctx
   = Inl (ValidationError
       [mkIssue ''invalid_string'' []
          [Lit ''String must match pattern '', Lit ''/^[0-9]+$/''] None None])"
    by (simp add: fail_def root_ctx_def)
  from 3 StringSchema_checks_in_order [where c = ?c3 and s = "'' ab ''" and ec = None
      and ctx = root_ctx]
  have c: "StringSchema_parse None ?c3 (VStr '' ab '') root_ctx
   = Inl (ValidationError
       [mkIssue ''invalid_length'' []
          [Lit ''String must be exactly '', Shown (VNum (Fin 5)), Lit '' characters'']
          None None])"
    by (simp add: fail_def root_ctx_def)
  from 4 StringSchema_checks_in_order [where c = ?c4 and s = "'' a1 ''" and ec = None
      and ctx = root_ctx]
  have d: "StringSchema_parse None ?c4 (VStr '' a1 '') root_ctx
   = Inl (ValidationError
       [mkIssue ''invalid_string'' []
          [Lit ''String must match pattern '', Lit ''/^[0-9]+$/''] None None])"
    by (simp add: fail_def root_ctx_def)
  from 5 6 StringSchema_checks_in_order [where c = ?c5 and s = "'' 12 ''" and ec = None
      and ctx = root_ctx]
  have e: "StringSchema_parse None ?c5 (VStr '' 12 '') root_ctx = Inr (VStr ''12'')"
    by simp
  from a b c d e show ?thesis by blast
qed

text \<open>
  Counterexample to C9 as stated. The node \<^verbatim>\<open>set(string().toLowerCase()).min(3)\<close>
  accepts the set of "A", "a" and "b", whose three members become the two members "a"
  and "b" of the output, and rejects that output as too small.
\<close>

theorem SetSchema_rejects_own_output:
  "parse lower_set_node (VSet [VStr ''A'', VStr ''a'', VStr ''b'']) root_ctx
     = Inr (VSet [VStr ''a'', VStr ''b'']) \<and>
   parse lower_set_node (VSet [VStr ''a'', VStr ''b'']) root_ctx
     = Inl (ValidationError
         [mkIssue ''too_small'' []
            [Lit ''Set must have at least '', Shown (VNum (Fin 3)), Lit '' elements'']
            None None])"
  by code_simp

text \<open>
  A string schema whose pattern is stateful need not accept its output either: the
  schema with the pattern \<^verbatim>\<open>/a/g\<close> accepts "a", which leaves the expression at index 1,
  and the next call rejects "a".
\<close>

lemma StringSchema_global_pattern_rejects_own_output:
  "StringSchema_parse None
     (new_StringSchema\<lparr>str_regex := Some (RegExp ''a'' ''g'' 0 match_a)\<rparr>)
     (VStr ''a'') root_ctx = Inr (VStr ''a'') \<and>
   StringSchema_parse None
     (StringSchema_after (new_StringSchema\<lparr>str_regex := Some (RegExp ''a'' ''g'' 0 match_a)\<rparr>)
        (VStr ''a''))
     (VStr ''a'') root_ctx
   = Inl (ValidationError
       [mkIssue ''invalid_string'' []
          [Lit ''String must match pattern '', Lit ''/a/g''] None None])"
  by code_simp

text \<open>
  Claim C9, amended. For every string schema, with whatever normalisation, whose
  pattern, if it has one, has neither the global nor the sticky flag, and every input
  it accepts: the call leaves the schema as it was, and parsing the output again
  through the schema succeeds and returns the output unchanged.
\<close>

theorem StringSchema_parse_idempotent:
  assumes "StringSchema_parse ec c d ctx = Inr out" and "stateless_pattern c"
  shows "StringSchema_after c d = c \<and>
         StringSchema_parse ec (StringSchema_after c d) out ctx' = Inr out"
proof -
  from StringSchema_parse_Inr [OF assms(1)] obtain s where
    d: "d = VStr s" and out: "out = VStr (str_normalize c s)" by blast
  from assms(1) d have "StringSchema_parse ec c (VStr s) ctx = Inr out" by simp
  from StringSchema_parse_same_normal_form [OF this str_normalize_idem] out
  have "StringSchema_parse ec c out ctx' = Inr out" by simp
  with StringSchema_after_stateless [OF assms(2)] show ?thesis by simp
qed

text \<open>
  Witness for C9: the trimming, lower-casing schema with min 2 and the pattern
  \<^verbatim>\<open>/a/\<close>, which has no flag, accepts " AB " as "ab", and accepts "ab" as itself.
\<close>

theorem StringSchema_parse_idempotent_witness:
  "StringSchema_parse None
     (new_StringSchema\<lparr>str_trim := True, str_toLowerCase := True, str_min := Some (Fin 2),
        str_regex := Some (RegExp ''a'' [] 0 match_a)\<rparr>)
     (VStr '' AB '') root_ctx = Inr (VStr ''ab'') \<and>
   stateless_pattern
     (new_StringSchema\<lparr>str_trim := True, str_toLowerCase := True, str_min := Some (Fin 2),
        str_regex := Some (RegExp ''a'' [] 0 match_a)\<rparr>) \<and>
   StringSchema_parse None
     (new_StringSchema\<lparr>str_trim := True, str_toLowerCase := True, str_min := Some (Fin 2),
        str_regex := Some (RegExp ''a'' [] 0 match_a)\<rparr>)
     (VStr ''ab'') root_ctx = Inr (VStr ''ab'')"
proof -
  let ?c = "new_StringSchema\<lparr>str_trim := True, str_toLowerCase := True,
              str_min := Some (Fin 2), str_regex := Some (RegExp ''a'' [] 0 match_a)\<rparr>"
  have h: "StringSchema_parse None ?c (VStr '' AB '') root_ctx = Inr (VStr ''ab'')"
    by code_simp
  have s: "stateless_pattern ?c"
    by (simp add: stateless_pattern_def stateful_def new_StringSchema_def)
  note t = StringSchema_parse_idempotent [OF h s, where ctx' = root_ctx]
  from t have a: "StringSchema_after ?c (VStr '' AB '') = ?c" by (rule conjunct1)
  from t have "StringSchema_parse None (StringSchema_after ?c (VStr '' AB '')) (VStr ''ab'')
                 root_ctx = Inr (VStr ''ab'')" by (rule conjunct2)
  then have "StringSchema_parse None ?c (VStr ''ab'') root_ctx = Inr (VStr ''ab'')"
    by (simp only: a)
  with h s show ?thesis by blast
qed

subsection \<open>The number schema\<close>

text \<open>
  Claim C10. The number schema rejects NaN with a single invalid_type issue, whatever
  constraints are configured, and so no output of a number schema is NaN.
\<close>

theorem NumberSchema_rejects_NaN:
  "single_issue (NumberSchema_parse ec c (VNum NaN) ctx) ''invalid_type'' (path ctx) \<and>
   (\<forall>d out. NumberSchema_parse ec c d ctx = Inr out \<longrightarrow> out \<noteq> VNum NaN)"
proof -
  have "NumberSchema_parse ec c d ctx = Inr out \<Longrightarrow> out \<noteq> VNum NaN" for d out
    by (cases d) (auto simp add: NumberSchema_parse_def isNaN_def split: if_splits)
  then show ?thesis
    by (auto simp add: NumberSchema_parse_def isNaN_def)
qed

text \<open>
  Witness for C10: the schema \<^verbatim>\<open>number().min(0).finite()\<close> returns 5 for 5, which is
  not NaN, and raises the single issue for NaN.
\<close>

theorem NumberSchema_rejects_NaN_witness:
  "NumberSchema_parse None (new_NumberSchema\<lparr>num_min := Some (Fin 0), num_finite := True\<rparr>)
     (VNum (Fin 5)) root_ctx = Inr (VNum (Fin 5)) \<and>
   VNum (Fin 5) \<noteq> VNum NaN \<and>
   single_issue
     (NumberSchema_parse None (new_NumberSchema\<lparr>num_min := Some (Fin 0), num_finite := True\<rparr>)
        (VNum NaN) root_ctx)
     ''invalid_type'' []"
proof -
  let ?c = "new_NumberSchema\<lparr>num_min := Some (Fin 0), num_finite := True\<rparr>"
  have h: "NumberSchema_parse None ?c (VNum (Fin 5)) root_ctx = Inr (VNum (Fin 5))"
    by code_simp
  from h NumberSchema_rejects_NaN [where ec = None and c = ?c and ctx = root_ctx] show ?thesis
    by (simp add: root_ctx_def)
qed

subsection \<open>The record schema\<close>

lemma parse_record_aggregate:
  "parse_record K V ks input ctx (out, iss) =
     (case faults (map (record_entry K V input ctx) ks) of
        e # es \<Rightarrow> Inl (OtherError e)
      | [] \<Rightarrow>
          Inr (fold (\<lambda>(k, v) out. assign out k v)
                 (accepted (map (record_entry K V input ctx) ks)) out,
               iss @ rejections (map (record_entry K V input ctx) ks)))"
  by (induction ks arbitrary: out iss)
     (auto simp add: record_entry_def and_then_def outcome_of_def
        split: sum.splits thrown.splits list.splits)

lemma RecordSchema_parse_aggregate:
  "RecordSchema_parse ec K V (VObject kvs) ctx =
     aggregate (map (record_entry K V (VObject kvs) ctx) (map fst kvs)) record_output"
  by (simp add: RecordSchema_parse_def finish_def object_keys_def
      parse_record_aggregate aggregate_def record_output_def Let_def split: list.splits)

lemma record_entry_cong:
  "(returns (K (VStr key) (descend ctx [Key key] input)) \<longrightarrow>
      V (get_prop input key) (descend ctx [Key key] input) =
      V' (get_prop input key) (descend ctx [Key key] input)) \<Longrightarrow>
   record_entry K V input ctx key = record_entry K V' input ctx key"
  by (auto simp add: record_entry_def and_then_def outcome_of_def returns_def
      split: sum.splits thrown.splits)

text \<open>
  Counterexample to C2 as stated. The record schema with keys \<^verbatim>\<open>string().min(2)\<close> and
  values \<^verbatim>\<open>number()\<close>, on the object \<^verbatim>\<open>{a: "x"}\<close>: the key fails and the value would
  fail too, yet the error holds the key's issue only.
\<close>

theorem RecordSchema_key_failure_skips_value:
  "RecordSchema_parse None
     (StringSchema_parse None (new_StringSchema\<lparr>str_min := Some (Fin 2)\<rparr>))
     (NumberSchema_parse None new_NumberSchema)
     (VObject [(''a'', VStr ''x'')]) root_ctx
   = Inl (ValidationError
       [mkIssue ''too_small'' [Key ''a'']
          [Lit ''String must be at least '', Shown (VNum (Fin 2)), Lit '' characters'']
          None None])
   \<and> NumberSchema_parse None new_NumberSchema (VStr ''x'')
        (descend root_ctx [Key ''a''] (VObject [(''a'', VStr ''x'')]))
   = Inl (ValidationError
       [mkIssue ''invalid_type'' [Key ''a'']
          [Lit ''Expected number, received '', Lit ''string'']
          (Some [Lit ''number'']) (Some [Lit ''string''])])"
  by (simp add: RecordSchema_parse_def finish_def object_keys_def StringSchema_parse_def
      NumberSchema_parse_def new_StringSchema_def new_NumberSchema_def str_normalize_def
      violates_def Let_def fail_def mkIssue_def root_ctx_def descend_def get_prop_def
      num_of_nat_def)

text \<open>
  Claim C2, amended. For every record schema and every object input, the entries are
  validated in order, the key of an entry before its value, and when the key of an
  entry fails key validation the paired value is not validated: the result is the same
  for any two value schemas that agree on the entries whose key is accepted. An entry
  whose key fails contributes the issues of its key, and an entry whose key is accepted
  the issues of its value; when there are any, these issues of all entries appear
  together, in the order of the entries, in the one validation error the record
  raises, and else the record returns the object of the parsed values. An exception
  that is no validation error is raised as it is.
\<close>

theorem RecordSchema_aggregates_entries:
  "RecordSchema_parse ec K V (VObject kvs) ctx =
     aggregate (map (record_entry K V (VObject kvs) ctx) (map fst kvs)) record_output \<and>
   ((\<forall>key \<in> set (map fst kvs).
       returns (K (VStr key) (descend ctx [Key key] (VObject kvs))) \<longrightarrow>
       V (get_prop (VObject kvs) key) (descend ctx [Key key] (VObject kvs)) =
       V' (get_prop (VObject kvs) key) (descend ctx [Key key] (VObject kvs))) \<longrightarrow>
    RecordSchema_parse ec K V (VObject kvs) ctx = RecordSchema_parse ec K V' (VObject kvs) ctx)"
proof -
  have "map (record_entry K V (VObject kvs) ctx) (map fst kvs) =
        map (record_entry K V' (VObject kvs) ctx) (map fst kvs)"
    if "\<forall>key \<in> set (map fst kvs).
       returns (K (VStr key) (descend ctx [Key key] (VObject kvs))) \<longrightarrow>
       V (get_prop (VObject kvs) key) (descend ctx [Key key] (VObject kvs)) =
       V' (get_prop (VObject kvs) key) (descend ctx [Key key] (VObject kvs))"
    using that by (intro map_cong refl record_entry_cong) blast
  then have "RecordSchema_parse ec K V (VObject kvs) ctx =
             RecordSchema_parse ec K V' (VObject kvs) ctx"
    if "\<forall>key \<in> set (map fst kvs).
       returns (K (VStr key) (descend ctx [Key key] (VObject kvs))) \<longrightarrow>
       V (get_prop (VObject kvs) key) (descend ctx [Key key] (VObject kvs)) =
       V' (get_prop (VObject kvs) key) (descend ctx [Key key] (VObject kvs))"
    using that by (simp only: RecordSchema_parse_aggregate)
  with RecordSchema_parse_aggregate [of ec K V kvs ctx] show ?thesis
    by blast
qed

text \<open>
  Witness for C2: the record schema with keys \<^verbatim>\<open>string().min(2)\<close> and values
  \<^verbatim>\<open>number()\<close>. On \<^verbatim>\<open>{a: "x", bb: "y", cc: 1}\<close> it raises the issue of the key "a"
  and the issue of the value of "bb", and it does the same with a value schema that
  throws as soon as it is invoked on "x", the value of the key that fails. On
  \<^verbatim>\<open>{bb: 2, cc: 1}\<close> it returns the object.
\<close>

theorem RecordSchema_aggregates_entries_witness:
  "RecordSchema_parse None
     (StringSchema_parse None (new_StringSchema\<lparr>str_min := Some (Fin 2)\<rparr>))
     (NumberSchema_parse None new_NumberSchema)
     (VObject [(''a'', VStr ''x''), (''bb'', VStr ''y''), (''cc'', VNum (Fin 1))]) root_ctx
   = Inl (ValidationError
      [mkIssue ''too_small'' [Key ''a'']
         [Lit ''String must be at least '', Shown (VNum (Fin 2)), Lit '' characters'']
         None None,
       mkIssue ''invalid_type'' [Key ''bb'']
         [Lit ''Expected number, received '', Lit ''string'']
         (Some [Lit ''number'']) (Some [Lit ''string''])]) \<and>
   RecordSchema_parse None
     (StringSchema_parse None (new_StringSchema\<lparr>str_min := Some (Fin 2)\<rparr>))
     (NumberSchema_parse None new_NumberSchema)
     (VObject [(''a'', VStr ''x''), (''bb'', VStr ''y''), (''cc'', VNum (Fin 1))]) root_ctx
   = RecordSchema_parse None
     (StringSchema_parse None (new_StringSchema\<lparr>str_min := Some (Fin 2)\<rparr>))
     (throws_on (VStr ''x'') (NumberSchema_parse None new_NumberSchema))
     (VObject [(''a'', VStr ''x''), (''bb'', VStr ''y''), (''cc'', VNum (Fin 1))]) root_ctx \<and>
   RecordSchema_parse None
     (StringSchema_parse None (new_StringSchema\<lparr>str_min := Some (Fin 2)\<rparr>))
     (NumberSchema_parse None new_NumberSchema)
     (VObject [(''bb'', VNum (Fin 2)), (''cc'', VNum (Fin 1))]) root_ctx
   = Inr (VObject [(''bb'', VNum (Fin 2)), (''cc'', VNum (Fin 1))])"
proof -
  let ?K = "StringSchema_parse None (new_StringSchema\<lparr>str_min := Some (Fin 2)\<rparr>)"
  let ?V = "NumberSchema_parse None new_NumberSchema"
  let ?V' = "throws_on (VStr ''x'') (NumberSchema_parse None new_NumberSchema)"
  let ?kvs = "[(''a'', VStr ''x''), (''bb'', VStr ''y''), (''cc'', VNum (Fin 1))]"
  let ?kvs2 = "[(''bb'', VNum (Fin 2)), (''cc'', VNum (Fin 1))]"
  let ?iss = "[mkIssue ''too_small'' [Key ''a'']
        [Lit ''String must be at least '', Shown (VNum (Fin 2)), Lit '' characters'']
        None None,
      mkIssue ''invalid_type'' [Key ''bb'']
        [Lit ''Expected number, received '', Lit ''string'']
        (Some [Lit ''number'']) (Some [Lit ''string''])]"
  have agg: "aggregate (map (record_entry ?K ?V (VObject ?kvs) root_ctx) (map fst ?kvs))
               record_output = Inl (ValidationError ?iss)"
    by code_simp
  have agg2: "aggregate (map (record_entry ?K ?V (VObject ?kvs2) root_ctx) (map fst ?kvs2))
               record_output = Inr (VObject ?kvs2)"
    by code_simp
  have same: "\<forall>key \<in> set (map fst ?kvs).
       returns (?K (VStr key) (descend root_ctx [Key key] (VObject ?kvs))) \<longrightarrow>
       ?V (get_prop (VObject ?kvs) key) (descend root_ctx [Key key] (VObject ?kvs)) =
       ?V' (get_prop (VObject ?kvs) key) (descend root_ctx [Key key] (VObject ?kvs))"
    by code_simp
  note t = RecordSchema_aggregates_entries [where ec = None and K = ?K and V = ?V and V' = ?V'
      and kvs = ?kvs and ctx = root_ctx]
  note t2 = RecordSchema_aggregates_entries [where ec = None and K = ?K and V = ?V and V' = ?V
      and kvs = ?kvs2 and ctx = root_ctx]
  from t agg have 1: "RecordSchema_parse None ?K ?V (VObject ?kvs) root_ctx
                      = Inl (ValidationError ?iss)"
    by (simp only:)
  from t same have 2: "RecordSchema_parse None ?K ?V (VObject ?kvs) root_ctx
                       = RecordSchema_parse None ?K ?V' (VObject ?kvs) root_ctx"
    by blast
  from t2 agg2 have 3: "RecordSchema_parse None ?K ?V (VObject ?kvs2) root_ctx
                        = Inr (VObject ?kvs2)"
    by (simp only:)
  from 1 2 3 show ?thesis by blast
qed

subsection \<open>The string-to-boolean validator\<close>

text \<open>
  With the default tokens, which are all lower-case, the lower-cased input is looked up
  among the truthy and then the falsy tokens, and any other string raises
  invalid_value.
\<close>

lemma StringBoolSchema_default_tokens:
  "StringBoolSchema_parse ec (new_StringBoolSchema None None) (VStr s) ctx =
     (if toLowerCase s \<in> {''true'', ''1'', ''yes'', ''on'', ''y'', ''enabled''}
      then Inr (VBool True)
      else if toLowerCase s \<in> {''false'', ''0'', ''no'', ''off'', ''n'', ''disabled''}
      then Inr (VBool False)
      else Inl (fail ec ''invalid_value''
                  [Lit ''Cannot parse '', Lit (quoted s), Lit '' as boolean''] ctx None None))"
  by (simp add: StringBoolSchema_parse_def new_StringBoolSchema_def new_Set_def Let_def)

text \<open>
  Claim C5, at the input where the code departs from it. The validator configured with
  the truthy token "YES" lower-cases the input "YES" to "yes" and looks that up among
  the tokens as they were given, so the input is not recognised and invalid_value is
  raised.
\<close>

theorem StringBoolSchema_configured_token_not_matched:
  "StringBoolSchema_parse None (new_StringBoolSchema (Some [''YES'']) None) (VStr ''YES'') root_ctx
   = Inl (ValidationError
       [mkIssue ''invalid_value'' []
          [Lit ''Cannot parse '', Lit (quoted ''YES''), Lit '' as boolean''] None None])"
  by code_simp

subsection \<open>The plain union\<close>

lemma try_options_all_fail:
  "\<forall>p \<in> set pre. fails_validation (p d ctx) \<Longrightarrow>
   try_options (pre @ post) d ctx iss =
     try_options post d ctx (iss @ concat (map (\<lambda>p. issues_of (p d ctx)) pre))"
  by (induction pre arbitrary: iss)
     (auto simp add: fails_validation_def issues_of_def split: sum.splits thrown.splits)

text \<open>
  Claim C6. For every plain union and every input: when the alternatives before one
  that validates successfully all fail validation, the result is the output of that
  alternative, whatever the alternatives after it are; and when every alternative fails
  validation, the union raises a validation error with exactly one issue, of code
  invalid_union at the current path, built from nothing of the alternatives' issues.
\<close>

theorem UnionSchema_first_success_wins:
  assumes "\<forall>p \<in> set pre. fails_validation (p d ctx)"
  shows "(opt d ctx = Inr v \<longrightarrow> UnionSchema_parse ec (pre @ opt # post) d ctx = Inr v) \<and>
         UnionSchema_parse ec pre d ctx =
           Inl (fail ec ''invalid_union'' [Lit ''Invalid input: does not match any union member'']
                  ctx None None) \<and>
         single_issue (UnionSchema_parse ec pre d ctx) ''invalid_union'' (path ctx)"
proof -
  have a: "opt d ctx = Inr v \<Longrightarrow> UnionSchema_parse ec (pre @ opt # post) d ctx = Inr v"
    using try_options_all_fail [OF assms, of "opt # post" "[]"]
    by (simp add: UnionSchema_parse_def)
  have b: "UnionSchema_parse ec pre d ctx =
           Inl (fail ec ''invalid_union'' [Lit ''Invalid input: does not match any union member'']
                  ctx None None)"
    using try_options_all_fail [OF assms, of "[]" "[]"]
    by (simp add: UnionSchema_parse_def)
  from a b show ?thesis by simp
qed

text \<open>
  Witness for C6: on the input \<^verbatim>\<open>true\<close>, the union of string, number, boolean and
  never returns \<^verbatim>\<open>true\<close>, and the union of string and number raises the one issue.
\<close>

theorem UnionSchema_first_success_wins_witness:
  "UnionSchema_parse None
     [StringSchema_parse None new_StringSchema, NumberSchema_parse None new_NumberSchema,
      BooleanSchema_parse None, NeverSchema_parse None] (VBool True) root_ctx = Inr (VBool True) \<and>
   single_issue
     (UnionSchema_parse None
        [StringSchema_parse None new_StringSchema, NumberSchema_parse None new_NumberSchema]
        (VBool True) root_ctx)
     ''invalid_union'' []"
proof -
  let ?pre = "[StringSchema_parse None new_StringSchema, NumberSchema_parse None new_NumberSchema]"
  have h: "\<forall>p \<in> set ?pre. fails_validation (p (VBool True) root_ctx)"
    by (simp add: fails_validation_def StringSchema_parse_def NumberSchema_parse_def fail_def)
  have b: "BooleanSchema_parse None (VBool True) root_ctx = Inr (VBool True)"
    by (simp add: BooleanSchema_parse_def)
  from b UnionSchema_first_success_wins [OF h, where opt = "BooleanSchema_parse None"
      and v = "VBool True" and ec = None and post = "[NeverSchema_parse None]"]
  show ?thesis by (simp add: root_ctx_def)
qed


subsection \<open>safeParse\<close>

lemma fail_not_fault [simp]: "fail ec c m ctx e r \<noteq> OtherError x"
  by (simp add: fail_def Let_def)

lemma type_fail_not_fault [simp]: "type_fail ec a b d ctx \<noteq> OtherError x"
  by (simp add: type_fail_def)

lemma object_type_fail_not_fault [simp]: "object_type_fail ec d ctx \<noteq> OtherError x"
  by (simp add: object_type_fail_def)




subsection \<open>Deriving nodes\<close>

lemma extends_alloc [simp]: "extends_store h (alloc h s)"
  by (simp add: extends_store_def alloc_def)

lemma extends_construct [simp]: "extends_store h (construct h k)"
  by (simp add: construct_def)

lemma extends_write_ec:
  "extends_store h (h', c) \<Longrightarrow> extends_store h (write_errorCustomizer h' c ec, c)"
  by (simp add: extends_store_def write_errorCustomizer_def)

lemma extends_write_kind:
  "extends_store h (h', c) \<Longrightarrow> extends_store h (write_kind h' c k, c)"
  by (simp add: extends_store_def write_kind_def)

lemma extends_with_message:
  "extends_store h (h', c) \<Longrightarrow> extends_store h (with_message h' c msg, c)"
  by (simp add: with_message_def extends_write_ec split: option.splits)

lemma extends_clone [simp]: "extends_store h (clone h this)"
proof -
  obtain h1 c where a: "construct h (kind (h ! this)) = (h1, c)"
    by (cases "construct h (kind (h ! this))")
  with extends_construct [of h "kind (h ! this)"] have "extends_store h (h1, c)" by simp
  with a show ?thesis by (simp add: clone_def extends_write_ec)
qed

lemma extends_chain [simp]: "extends_store h (chain h this k msg)"
proof -
  obtain h1 c where a: "clone h this = (h1, c)" by (cases "clone h this")
  with extends_clone [of h this] have "extends_store h (h1, c)" by simp
  with a show ?thesis by (simp add: chain_def extends_write_kind extends_with_message)
qed

lemma extends_error [simp]: "extends_store h (BaseSchema_error h this cu)"
proof -
  obtain h1 c where a: "alloc h (h ! this) = (h1, c)" by (cases "alloc h (h ! this)")
  with extends_alloc [of h "h ! this"] have "extends_store h (h1, c)" by simp
  with a show ?thesis by (simp add: BaseSchema_error_def extends_write_ec)
qed

lemma base_method_extends: "base_method h this m = Some r \<Longrightarrow> extends_store h r"
  by (auto simp add: base_method_def split: derivation.splits)

lemma class_method_extends: "class_method h this m = Some r \<Longrightarrow> extends_store h r"
  by (auto simp add: class_method_def string_method_def number_method_def bigint_method_def
      date_method_def array_method_def set_method_def object_method_def enum_method_def
      split: kind.splits derivation.splits)

lemma derive_extends: "derive h this m = Some r \<Longrightarrow> extends_store h r"
  by (auto simp add: derive_def base_method_extends class_method_extends split: option.splits)

text \<open>
  Every method of a node that derives a node returns a new node and leaves each node of
  the store, the original among them, as it was, and so parsing as it did.
\<close>

lemma derive_leaves_original:
  assumes "derive h this m = Some (h', r)" and "a < length h"
  shows "r \<noteq> a \<and> h' ! a = h ! a \<and> parse (h' ! a) = parse (h ! a)"
proof -
  from derive_extends [OF assms(1)] have e: "r = length h" "take (length h) h' = h"
    by (simp_all add: extends_store_def)
  from e(2) assms(2) have "h' ! a = h ! a" by (metis nth_take)
  with e assms show ?thesis by simp
qed

text \<open>
  Claim C3, at the input where the code departs from it. \<^verbatim>\<open>preprocess(f, schema)\<close>
  with the node \<^verbatim>\<open>string()\<close> returns the address of that very node, and the node, which
  rejected the input 5 with invalid_type before the call, accepts it after the call
  and returns what the preprocessing function made of it.
\<close>

theorem preprocess_changes_original:
  "snd (preprocess [string_node] to_changed 0) = 0 \<and>
   parse ([string_node] ! 0) (VNum (Fin 5)) root_ctx =
     Inl (ValidationError
       [mkIssue ''invalid_type'' []
          [Lit ''Expected string, received '', Lit ''number'']
          (Some [Lit ''string'']) (Some [Lit ''number''])]) \<and>
   parse (fst (preprocess [string_node] to_changed 0) ! 0) (VNum (Fin 5)) root_ctx
     = Inr (VStr ''changed'')"
  by code_simp

subsection \<open>Map and set schemas\<close>

lemma set_member_at:
  "set_member V input ctx (i, x) = outcome_of (V x (descend ctx [Index i] input))"
  by (simp add: set_member_def)

lemma map_entry_at:
  "map_entry K V input ctx (i, k, v) =
     and_then (outcome_of (K k (descend ctx [Index i, Key ''key''] input)))
       (\<lambda>pk. and_then (outcome_of (V v (descend ctx [Index i, Key ''value''] input)))
          (\<lambda>pv. Accepted (pk, pv)))"
  by (simp add: map_entry_def)

lemma parse_members_aggregate:
  "parse_members V xs input ctx i (out, iss) =
     (case faults (map (set_member V input ctx) (enumerate i xs)) of
        e # es \<Rightarrow> Inl (OtherError e)
      | [] \<Rightarrow>
          Inr (fold (\<lambda>v out. set_add out v)
                 (accepted (map (set_member V input ctx) (enumerate i xs))) out,
               iss @ rejections (map (set_member V input ctx) (enumerate i xs))))"
  by (induction xs arbitrary: out iss i)
     (auto simp add: set_member_at outcome_of_def
        split: sum.splits thrown.splits list.splits)

lemma parse_map_aggregate:
  "parse_map K V xs input ctx i (out, iss) =
     (case faults (map (map_entry K V input ctx) (enumerate i xs)) of
        e # es \<Rightarrow> Inl (OtherError e)
      | [] \<Rightarrow>
          Inr (fold (\<lambda>(k, v) out. map_set out k v)
                 (accepted (map (map_entry K V input ctx) (enumerate i xs))) out,
               iss @ rejections (map (map_entry K V input ctx) (enumerate i xs))))"
  by (induction xs arbitrary: out iss i)
     (auto simp add: map_entry_at and_then_def outcome_of_def
        split: sum.splits thrown.splits list.splits)

lemma SetSchema_size_violation:
  "first_violation (spec_set_checks c (length members)) = Some cd \<Longrightarrow>
   single_issue (SetSchema_parse ec V c (VSet members) ctx) cd (path ctx) \<and>
   SetSchema_parse ec V c (VSet members) ctx = SetSchema_parse ec V' c (VSet members) ctx"
  by (auto simp add: first_violation_def spec_set_checks_def SetSchema_parse_def Let_def
      split: if_splits)

lemma SetSchema_members:
  "first_violation (spec_set_checks c (length members)) = None \<Longrightarrow>
   SetSchema_parse ec V c (VSet members) ctx =
     aggregate (map (set_member V (VSet members) ctx) (enumerate 0 members)) set_output"
  by (simp add: first_violation_def spec_set_checks_def SetSchema_parse_def Let_def
      parse_members_aggregate aggregate_def set_output_def split: if_splits list.splits)

lemma MapSchema_entries:
  "MapSchema_parse ec K W (VMap entries) ctx =
     aggregate (map (map_entry K W (VMap entries) ctx) (enumerate 0 entries)) map_output"
  by (simp add: MapSchema_parse_def parse_map_aggregate aggregate_def map_output_def Let_def
      split: list.splits)

text \<open>
  Counterexample to C4 as stated. A map schema has no size constraint to configure: on
  the node \<^verbatim>\<open>map(string(), number())\<close> there is no \<^verbatim>\<open>min\<close>, \<^verbatim>\<open>max\<close>, \<^verbatim>\<open>size\<close> or
  \<^verbatim>\<open>nonempty\<close> to call, and the node accepts the empty map; on the node
  \<^verbatim>\<open>set(number())\<close> the call \<^verbatim>\<open>min(1)\<close> returns a new node with that bound.
\<close>

theorem MapSchema_has_no_size_constraint:
  "derive [map_node] 0 (M_min (Fin 1) None) = None \<and>
   derive [map_node] 0 (M_max (Fin 1) None) = None \<and>
   derive [map_node] 0 (M_size (Fin 1)) = None \<and>
   derive [map_node] 0 (M_nonempty None) = None \<and>
   parse map_node (VMap []) root_ctx = Inr (VMap []) \<and>
   derive [set_node] 0 (M_min (Fin 1) None) =
     Some ([set_node, new_schema (KSet number_node (new_SetSchema\<lparr>set_min := Some (Fin 1)\<rparr>))], 1)"
proof -
  have "derive [map_node] 0 (M_min (Fin 1) None) = None \<and>
   derive [map_node] 0 (M_max (Fin 1) None) = None \<and>
   derive [map_node] 0 (M_size (Fin 1)) = None \<and>
   derive [map_node] 0 (M_nonempty None) = None \<and>
   parse map_node (VMap []) root_ctx = Inr (VMap [])"
    by code_simp
  moreover have "derive [set_node] 0 (M_min (Fin 1) None) =
     Some ([set_node, new_schema (KSet number_node (new_SetSchema\<lparr>set_min := Some (Fin 1)\<rparr>))], 1)"
    by (simp add: set_node_def derive_def base_method_def class_method_def new_schema_def
        set_method_def chain_def clone_def construct_def alloc_def write_errorCustomizer_def
        write_kind_def with_message_def)
  ultimately show ?thesis by blast
qed

text \<open>
  Claim C4, amended. For every set schema the configured size constraints are checked,
  in the order exact size, min, max, before any member is validated: an input whose
  size violates one raises a single issue with the code of the first violated
  constraint, whatever the member validator is, and only a size-conforming input goes
  on to the members, which are validated in order and aggregated. A map schema has no
  size constraints: every map goes to its entries, which are validated in order, the
  key of an entry before its value and the value only when the key is accepted, and
  aggregated. Aggregated means: the issues of all rejected members or entries are
  raised together, in order, in one validation error when there are any, and else the
  set or map of the parsed members or entries is returned; an exception that is no
  validation error is raised as it is.
\<close>

theorem SetSchema_size_checks_first:
  "(case first_violation (spec_set_checks c (length members)) of
      Some cd \<Rightarrow>
        single_issue (SetSchema_parse ec V c (VSet members) ctx) cd (path ctx) \<and>
        SetSchema_parse ec V c (VSet members) ctx = SetSchema_parse ec V' c (VSet members) ctx
    | None \<Rightarrow>
        SetSchema_parse ec V c (VSet members) ctx =
          aggregate (map (set_member V (VSet members) ctx) (enumerate 0 members)) set_output) \<and>
   MapSchema_parse ec K W (VMap entries) ctx =
     aggregate (map (map_entry K W (VMap entries) ctx) (enumerate 0 entries)) map_output"
  using SetSchema_size_violation [of c members _ ec V ctx V']
    SetSchema_members [of c members ec V ctx] MapSchema_entries [of ec K W entries ctx]
  by (auto split: option.splits)

text \<open>
  Witness for C4. The node \<^verbatim>\<open>set(number()).min(2)\<close> raises too_small on a set of one
  member, also with a member validator that throws when invoked; on the set of "a", 1
  and "b" it raises the issues of the first and the third member; and it returns the
  set of 1 and 2. The node \<^verbatim>\<open>map(string(), number())\<close>, on the map of 1 to "a", "k" to
  "b" and "m" to 3, raises the issue of the first key and of the second value; and it
  returns the map of "k" to 1 and "m" to 3.
\<close>

theorem SetSchema_size_checks_first_witness:
  "single_issue
     (SetSchema_parse None (parse number_node) (new_SetSchema\<lparr>set_min := Some (Fin 2)\<rparr>)
        (VSet [VNum (Fin 1)]) root_ctx) ''too_small'' [] \<and>
   SetSchema_parse None (parse number_node) (new_SetSchema\<lparr>set_min := Some (Fin 2)\<rparr>)
     (VSet [VNum (Fin 1)]) root_ctx
   = SetSchema_parse None invoked (new_SetSchema\<lparr>set_min := Some (Fin 2)\<rparr>)
       (VSet [VNum (Fin 1)]) root_ctx \<and>
   SetSchema_parse None (parse number_node) (new_SetSchema\<lparr>set_min := Some (Fin 2)\<rparr>)
     (VSet [VStr ''a'', VNum (Fin 1), VStr ''b'']) root_ctx
   = Inl (ValidationError
       [mkIssue ''invalid_type'' [Index 0]
          [Lit ''Expected number, received '', Lit ''string'']
          (Some [Lit ''number'']) (Some [Lit ''string'']),
        mkIssue ''invalid_type'' [Index 2]
          [Lit ''Expected number, received '', Lit ''string'']
          (Some [Lit ''number'']) (Some [Lit ''string''])]) \<and>
   SetSchema_parse None (parse number_node) (new_SetSchema\<lparr>set_min := Some (Fin 2)\<rparr>)
     (VSet [VNum (Fin 1), VNum (Fin 2)]) root_ctx
   = Inr (VSet [VNum (Fin 1), VNum (Fin 2)]) \<and>
   MapSchema_parse None (parse string_node) (parse number_node)
     (VMap [(VNum (Fin 1), VStr ''a''), (VStr ''k'', VStr ''b''), (VStr ''m'', VNum (Fin 3))])
     root_ctx
   = Inl (ValidationError
       [mkIssue ''invalid_type'' [Index 0, Key ''key'']
          [Lit ''Expected string, received '', Lit ''number'']
          (Some [Lit ''string'']) (Some [Lit ''number'']),
        mkIssue ''invalid_type'' [Index 1, Key ''value'']
          [Lit ''Expected number, received '', Lit ''string'']
          (Some [Lit ''number'']) (Some [Lit ''string''])]) \<and>
   MapSchema_parse None (parse string_node) (parse number_node)
     (VMap [(VStr ''k'', VNum (Fin 1)), (VStr ''m'', VNum (Fin 3))]) root_ctx
   = Inr (VMap [(VStr ''k'', VNum (Fin 1)), (VStr ''m'', VNum (Fin 3))])"
proof -
  let ?c = "new_SetSchema\<lparr>set_min := Some (Fin 2)\<rparr>"
  let ?V = "parse number_node"
  let ?K = "parse string_node"
  let ?ms = "[VStr ''a'', VNum (Fin 1), VStr ''b'']"
  let ?ms2 = "[VNum (Fin 1), VNum (Fin 2)]"
  let ?es = "[(VNum (Fin 1), VStr ''a''), (VStr ''k'', VStr ''b''), (VStr ''m'', VNum (Fin 3))]"
  let ?es2 = "[(VStr ''k'', VNum (Fin 1)), (VStr ''m'', VNum (Fin 3))]"
  let ?siss = "[mkIssue ''invalid_type'' [Index 0]
          [Lit ''Expected number, received '', Lit ''string'']
          (Some [Lit ''number'']) (Some [Lit ''string'']),
        mkIssue ''invalid_type'' [Index 2]
          [Lit ''Expected number, received '', Lit ''string'']
          (Some [Lit ''number'']) (Some [Lit ''string''])]"
  let ?miss = "[mkIssue ''invalid_type'' [Index 0, Key ''key'']
          [Lit ''Expected string, received '', Lit ''number'']
          (Some [Lit ''string'']) (Some [Lit ''number'']),
        mkIssue ''invalid_type'' [Index 1, Key ''value'']
          [Lit ''Expected number, received '', Lit ''string'']
          (Some [Lit ''number'']) (Some [Lit ''string''])]"
  have v1: "first_violation (spec_set_checks ?c (length [VNum (Fin 1)])) = Some ''too_small''"
    by code_simp
  have v2: "first_violation (spec_set_checks ?c (length ?ms)) = None"
    by code_simp
  have v3: "first_violation (spec_set_checks ?c (length ?ms2)) = None"
    by code_simp
  have s2: "aggregate (map (set_member ?V (VSet ?ms) root_ctx) (enumerate 0 ?ms)) set_output
            = Inl (ValidationError ?siss)"
    by code_simp
  have s3: "aggregate (map (set_member ?V (VSet ?ms2) root_ctx) (enumerate 0 ?ms2)) set_output
            = Inr (VSet ?ms2)"
    by code_simp
  have m1: "aggregate (map (map_entry ?K ?V (VMap ?es) root_ctx) (enumerate 0 ?es)) map_output
            = Inl (ValidationError ?miss)"
    by code_simp
  have m2: "aggregate (map (map_entry ?K ?V (VMap ?es2) root_ctx) (enumerate 0 ?es2)) map_output
            = Inr (VMap ?es2)"
    by code_simp
  from v1
    SetSchema_size_checks_first [where c = ?c and members = "[VNum (Fin 1)]" and ec = None
      and V = ?V and V' = invoked and ctx = root_ctx and K = ?K and W = ?V and entries = ?es]
  have 1: "single_issue (SetSchema_parse None ?V ?c (VSet [VNum (Fin 1)]) root_ctx)
             ''too_small'' [] \<and>
           SetSchema_parse None ?V ?c (VSet [VNum (Fin 1)]) root_ctx
           = SetSchema_parse None invoked ?c (VSet [VNum (Fin 1)]) root_ctx"
    by (auto simp add: root_ctx_def)
  from v2
    SetSchema_size_checks_first [where c = ?c and members = ?ms and ec = None
      and V = ?V and V' = invoked and ctx = root_ctx and K = ?K and W = ?V and entries = ?es]
  have "SetSchema_parse None ?V ?c (VSet ?ms) root_ctx
          = aggregate (map (set_member ?V (VSet ?ms) root_ctx) (enumerate 0 ?ms)) set_output \<and>
        MapSchema_parse None ?K ?V (VMap ?es) root_ctx
          = aggregate (map (map_entry ?K ?V (VMap ?es) root_ctx) (enumerate 0 ?es)) map_output"
    by (simp only: option.case)
  with s2 m1 have 2: "SetSchema_parse None ?V ?c (VSet ?ms) root_ctx = Inl (ValidationError ?siss)
      \<and> MapSchema_parse None ?K ?V (VMap ?es) root_ctx = Inl (ValidationError ?miss)"
    by (simp only:)
  from v3
    SetSchema_size_checks_first [where c = ?c and members = ?ms2 and ec = None
      and V = ?V and V' = invoked and ctx = root_ctx and K = ?K and W = ?V and entries = ?es2]
  have "SetSchema_parse None ?V ?c (VSet ?ms2) root_ctx
          = aggregate (map (set_member ?V (VSet ?ms2) root_ctx) (enumerate 0 ?ms2)) set_output \<and>
        MapSchema_parse None ?K ?V (VMap ?es2) root_ctx
          = aggregate (map (map_entry ?K ?V (VMap ?es2) root_ctx) (enumerate 0 ?es2)) map_output"
    by (simp only: option.case)
  with s3 m2 have 3: "SetSchema_parse None ?V ?c (VSet ?ms2) root_ctx = Inr (VSet ?ms2)
      \<and> MapSchema_parse None ?K ?V (VMap ?es2) root_ctx = Inr (VMap ?es2)"
    by (simp only:)
  from 1 2 3 show ?thesis by blast
qed

subsection \<open>The discriminated union\<close>

lemma map_of_assign: "map_of (assign m k v) = (map_of m)(k \<mapsto> v)"
  by (induction m) (auto simp add: fun_eq_iff)

lemma map_of_fold_assign:
  "map_of (fold (\<lambda>v m'. assign m' v x) vs m) k = (if k \<in> set vs then Some x else map_of m k)"
  by (induction vs arbitrary: m) (auto simp add: map_of_assign)

lemma find_snoc:
  "find P (xs @ [x]) =
     (case find P xs of None \<Rightarrow> (if P x then Some x else None) | Some y \<Rightarrow> Some y)"
  by (induction xs) auto

lemma map_of_build:
  "map_of (fold (\<lambda>option m. fold (\<lambda>v m'. assign m' v option) (f option) m) opts m0) k =
     (case find (\<lambda>option. k \<in> set (f option)) (rev opts) of
        None \<Rightarrow> map_of m0 k
      | Some option \<Rightarrow> Some option)"
proof (induction opts arbitrary: m0)
  case Nil
  then show ?case by simp
next
  case (Cons a opts)
  show ?case
    by (simp add: Cons.IH find_snoc map_of_fold_assign split: option.splits)
qed

lemma map_of_build_map:
  "map_of (build_map disc opts) v = last_declaring disc opts v"
  by (simp add: build_map_def last_declaring_def map_of_build split: option.splits)

lemma map_of_map_prod:
  "map_of (map (map_prod id f) m) k = map_option f (map_of m k)"
  by (induction m) auto

lemma probe_options_find:
  "probe_options (map f opts) d ctx =
     (case find (\<lambda>option. returns (f option d ctx)) opts of
        None \<Rightarrow> None
      | Some option \<Rightarrow> (case f option d ctx of Inr v \<Rightarrow> Some v | Inl e \<Rightarrow> None))"
  by (induction opts) (auto simp add: returns_def split: sum.splits)

lemma parse_DiscriminatedUnionSchema:
  "parse (DiscriminatedUnionSchema disc opts) =
     DiscriminatedUnionSchema_parse None disc (map parse opts)
       (map (map_prod id parse) (build_map disc opts))"
  by (simp add: DiscriminatedUnionSchema_def new_schema_def)

text \<open>
  Counterexample to C7 as stated. In the union keyed "type" of two members that both
  declare the literal "a", the input \<^verbatim>\<open>{type: "a", value: "x"}\<close> matches the literal of
  the first member, which accepts it; the union validates it by the second member alone
  and raises that member's issue.
\<close>

theorem DiscriminatedUnionSchema_later_member_wins:
  "VStr ''a'' \<in> set (discriminator_values ''type'' member_a) \<and>
   get_prop (VObject [(''type'', VStr ''a''), (''value'', VStr ''x'')]) ''type'' = VStr ''a'' \<and>
   parse member_a (VObject [(''type'', VStr ''a''), (''value'', VStr ''x'')]) root_ctx
     = Inr (VObject [(''type'', VStr ''a''), (''value'', VStr ''x'')]) \<and>
   parse (DiscriminatedUnionSchema ''type'' [member_a, member_a2])
     (VObject [(''type'', VStr ''a''), (''value'', VStr ''x'')]) root_ctx
     = Inl (ValidationError
       [mkIssue ''invalid_type'' [Key ''value'']
          [Lit ''Expected number, received '', Lit ''string'']
          (Some [Lit ''number'']) (Some [Lit ''string''])])"
  by code_simp

text \<open>
  Claim C7, amended. For every discriminated union: an input that is not an object, or
  is null, raises a single invalid_type issue; an input whose discriminator field
  equals a literal discriminator value of some member is validated by one member only,
  the last member in declared order that declares the value, and the result is that
  member's; and an input whose discriminator field matches no member is probed against
  the members in declared order, the result being that of the first member that
  accepts it, and a single invalid_union_discriminator issue when no member does (for
  a discriminator value that \<^verbatim>\<open>JSON.stringify\<close> renders).
\<close>

theorem DiscriminatedUnionSchema_dispatch:
  "(\<not> is_object d \<longrightarrow>
      single_issue (parse (DiscriminatedUnionSchema disc opts) d ctx) ''invalid_type'' (path ctx)) \<and>
   (is_object d \<longrightarrow>
      (case last_declaring disc opts (get_prop d disc) of
         Some m \<Rightarrow> parse (DiscriminatedUnionSchema disc opts) d ctx = parse m d ctx
       | None \<Rightarrow>
           (case find (\<lambda>option. returns (parse option d ctx)) opts of
              Some option \<Rightarrow> parse (DiscriminatedUnionSchema disc opts) d ctx = parse option d ctx
            | None \<Rightarrow>
                \<not> json_throws (get_prop d disc) \<longrightarrow>
                single_issue (parse (DiscriminatedUnionSchema disc opts) d ctx)
                  ''invalid_union_discriminator'' (path ctx))))"
proof -
  have a: "\<not> is_object d \<Longrightarrow>
      single_issue (parse (DiscriminatedUnionSchema disc opts) d ctx) ''invalid_type'' (path ctx)"
    by (auto simp add: parse_DiscriminatedUnionSchema DiscriminatedUnionSchema_parse_def
        is_object_def)
  have b: "is_object d \<Longrightarrow> last_declaring disc opts (get_prop d disc) = Some m \<Longrightarrow>
      parse (DiscriminatedUnionSchema disc opts) d ctx = parse m d ctx" for m
    by (simp add: parse_DiscriminatedUnionSchema DiscriminatedUnionSchema_parse_def
        is_object_def map_of_map_prod map_of_build_map Let_def)
  have c: "is_object d \<Longrightarrow> last_declaring disc opts (get_prop d disc) = None \<Longrightarrow>
      find (\<lambda>option. returns (parse option d ctx)) opts = Some option \<Longrightarrow>
      parse (DiscriminatedUnionSchema disc opts) d ctx = parse option d ctx" for option
  proof -
    assume h: "is_object d" "last_declaring disc opts (get_prop d disc) = None"
      "find (\<lambda>option. returns (parse option d ctx)) opts = Some option"
    from h(3) have "returns (parse option d ctx)" by (auto simp add: find_Some_iff)
    then obtain v where "parse option d ctx = Inr v"
      by (auto simp add: returns_def split: sum.splits)
    with h show ?thesis
      by (simp add: parse_DiscriminatedUnionSchema DiscriminatedUnionSchema_parse_def
          is_object_def map_of_map_prod map_of_build_map Let_def probe_options_find)
  qed
  have e: "is_object d \<Longrightarrow> last_declaring disc opts (get_prop d disc) = None \<Longrightarrow>
      find (\<lambda>option. returns (parse option d ctx)) opts = None \<Longrightarrow>
      \<not> json_throws (get_prop d disc) \<Longrightarrow>
      single_issue (parse (DiscriminatedUnionSchema disc opts) d ctx)
                  ''invalid_union_discriminator'' (path ctx)"
    by (simp add: parse_DiscriminatedUnionSchema DiscriminatedUnionSchema_parse_def
        is_object_def map_of_map_prod map_of_build_map Let_def probe_options_find)
  from a b c e show ?thesis
    by (auto split: option.splits)
qed

text \<open>
  Witness for C7: the union keyed "type" of the members "a" and "b". The string "x"
  raises invalid_type; \<^verbatim>\<open>{type: "b", value: 42}\<close> is validated by the member "b" and
  returned; \<^verbatim>\<open>{type: "c"}\<close> matches no member, none accepts it, and
  invalid_union_discriminator is raised.
\<close>

theorem DiscriminatedUnionSchema_dispatch_witness:
  "single_issue (parse (DiscriminatedUnionSchema ''type'' [member_a, member_b]) (VStr ''x'')
     root_ctx) ''invalid_type'' [] \<and>
   parse (DiscriminatedUnionSchema ''type'' [member_a, member_b])
     (VObject [(''type'', VStr ''b''), (''value'', VNum (Fin 42))]) root_ctx
     = Inr (VObject [(''type'', VStr ''b''), (''value'', VNum (Fin 42))]) \<and>
   single_issue (parse (DiscriminatedUnionSchema ''type'' [member_a, member_b])
     (VObject [(''type'', VStr ''c'')]) root_ctx) ''invalid_union_discriminator'' []"
proof -
  let ?u = "DiscriminatedUnionSchema ''type'' [member_a, member_b]"
  let ?b = "VObject [(''type'', VStr ''b''), (''value'', VNum (Fin 42))]"
  let ?c = "VObject [(''type'', VStr ''c'')]"
  have 1: "single_issue (parse ?u (VStr ''x'') root_ctx) ''invalid_type'' []"
    using DiscriminatedUnionSchema_dispatch [where d = "VStr ''x''" and disc = "''type''"
        and opts = "[member_a, member_b]" and ctx = root_ctx]
    by (simp add: is_object_def root_ctx_def)
  have sel: "last_declaring ''type'' [member_a, member_b] (get_prop ?b ''type'') = Some member_b"
    by (simp add: last_declaring_def discriminator_values_def member_a_def member_b_def
        ObjectSchema_def LiteralSchema_def new_schema_def shape_of_def literal_values_def
        new_Set_def get_prop_def)
  have pb: "parse member_b ?b root_ctx = Inr ?b"
    by code_simp
  have 2: "parse ?u ?b root_ctx = Inr ?b"
    using sel pb DiscriminatedUnionSchema_dispatch [where d = ?b and disc = "''type''"
        and opts = "[member_a, member_b]" and ctx = root_ctx]
    by (simp add: is_object_def)
  have none: "last_declaring ''type'' [member_a, member_b] (get_prop ?c ''type'') = None"
    by (simp add: last_declaring_def discriminator_values_def member_a_def member_b_def
        ObjectSchema_def LiteralSchema_def new_schema_def shape_of_def literal_values_def
        new_Set_def get_prop_def)
  have nf: "find (\<lambda>option. returns (parse option ?c root_ctx)) [member_a, member_b] = None"
    by code_simp
  have 3: "single_issue (parse ?u ?c root_ctx) ''invalid_union_discriminator'' []"
    using none nf DiscriminatedUnionSchema_dispatch [where d = ?c and disc = "''type''"
        and opts = "[member_a, member_b]" and ctx = root_ctx]
    by (simp add: is_object_def root_ctx_def get_prop_def)
  from 1 2 3 show ?thesis by simp
qed

end
